theory Spec2Isabelle
  imports Complex_Main
begin

section \<open>Values, errors and library boundaries\<close>

text \<open>
  The three scripts compute on float64 arrays.  A finite float is read as the real number
  it denotes; the non-finite values are kept apart, because the filters of the source
  test for them and because an operation can produce them.  Arithmetic is read in two
  ways: exactly, on the reals, where a statement is about the value computed; and with
  the range of float64, where a statement depends on overflow.  Decimal constants of
  the source are the decimal numbers written, not the doubles nearest to them.
\<close>

datatype fval = Fin real | PInf | NInf | NaN

fun isfinite :: "fval \<Rightarrow> bool" where
  "isfinite (Fin r) = True"
| "isfinite PInf = False"
| "isfinite NInf = False"
| "isfinite NaN = False"

text \<open>The comparison \<open>x > 0\<close> of numpy: false on NaN.\<close>

fun gt0 :: "fval \<Rightarrow> bool" where
  "gt0 (Fin r) = (0 < r)"
| "gt0 PInf = True"
| "gt0 NInf = False"
| "gt0 NaN = False"

fun fval_real :: "fval \<Rightarrow> real" where
  "fval_real (Fin r) = r"
| "fval_real PInf = 0"
| "fval_real NInf = 0"
| "fval_real NaN = 0"

text \<open>The mask \<open>x[np.isfinite(x) & (x > 0)]\<close>, used by the estimator and the renderer.\<close>

definition positive_finite :: "fval list \<Rightarrow> real list" where
  "positive_finite x = map fval_real (filter (\<lambda>v. isfinite v \<and> gt0 v) x)"

text \<open>
  Python exceptions as values.  \<open>SystemExit\<close> and \<open>KeyboardInterrupt\<close> derive from
  \<open>BaseException\<close> only; every other one derives from \<open>Exception\<close>.
\<close>

datatype exn =
    SystemExit string
  | KeyboardInterrupt
  | IndexError
  | KeyError
  | ValueError
  | OverflowError
  | TypeError
  | OSError
  | JSONDecodeError
  | UnicodeDecodeError
  | FitError

fun is_Exception :: "exn \<Rightarrow> bool" where
  "is_Exception (SystemExit m) = False"
| "is_Exception KeyboardInterrupt = False"
| "is_Exception e = True"

text \<open>
  The routines of scipy and numpy that the scripts call and that are not code of the
  repository: \<open>scipy.special.gammaln\<close>, \<open>scipy.stats.gamma.pdf\<close>,
  \<open>scipy.stats.gamma.fit(x, floc=0)\<close> (which may raise), \<open>np.percentile\<close> and the
  \<open>str\<close> of a float.  They are parameters of the model.  \<open>gammaln\<close> is the library's
  function on finite arguments, \<open>gammaln_special\<close> its answer for an infinity or NaN.
\<close>

record numlib =
  gammaln :: "real \<Rightarrow> real"
  gammaln_special :: "fval \<Rightarrow> fval"
  gamma_pdf :: "real \<Rightarrow> real \<Rightarrow> real \<Rightarrow> real"
  gamma_fit :: "real list \<Rightarrow> exn + (real \<times> real \<times> real)"
  percentile :: "real list \<Rightarrow> real \<Rightarrow> real"
  float_str :: "real \<Rightarrow> string"

section \<open>The log-likelihood and its grid in exact arithmetic (60_plot_gamma.py)\<close>

text \<open>
  The function \<open>_loglike_gamma_loc0\<close> and the arrays \<open>K\<close>, \<open>T\<close> and \<open>ll\<close> of
  \<open>plot_ll_contour\<close>, every operation read as the operation on real numbers.
\<close>

definition loglike_gamma_loc0 :: "numlib \<Rightarrow> real list \<Rightarrow> real \<Rightarrow> real \<Rightarrow> real" where
  "loglike_gamma_loc0 L x k theta =
     (let n = real (length x);
          s1 = sum_list (map ln x);
          s2 = sum_list x
      in (k - 1) * s1 - (s2 / theta) - n * k * ln theta - n * gammaln L k)"

text \<open>
  \<open>np.linspace(start, stop, num)\<close>: \<open>num\<close> points \<open>start + i * step\<close> with
  \<open>step = (stop - start) / (num - 1)\<close>; a single point is \<open>start\<close>.
\<close>

definition linspace :: "real \<Rightarrow> real \<Rightarrow> nat \<Rightarrow> real list" where
  "linspace start stop num =
     (if num = 1 then [start]
      else map (\<lambda>i. start + real i * ((stop - start) / real (num - 1))) [0..<num])"

text \<open>\<open>np.meshgrid(K, T, indexing="xy")\<close>: both results have one row per element of \<open>T\<close>.\<close>

definition meshgrid_xy :: "real list \<Rightarrow> real list \<Rightarrow> real list list \<times> real list list" where
  "meshgrid_xy K T = (map (\<lambda>t. K) T, map (\<lambda>t. map (\<lambda>k. t) K) T)"

definition contour_K :: "real \<Rightarrow> real list" where
  "contour_K k_mle =
     (let k_lo = max (1 / 1000) (k_mle * 0.25); k_hi = k_mle * 4 in linspace k_lo k_hi 180)"

definition contour_T :: "real \<Rightarrow> real list" where
  "contour_T th_mle =
     (let th_lo = max (1 / 1000000) (th_mle * 0.25); th_hi = th_mle * 4
      in linspace th_lo th_hi 180)"

text \<open>The array \<open>ll\<close> of \<open>plot_ll_contour\<close>: elementwise over the two mesh arrays.\<close>

definition contour_ll :: "numlib \<Rightarrow> real list \<Rightarrow> real \<Rightarrow> real \<Rightarrow> real list list" where
  "contour_ll L x k_mle th_mle =
     (let (KK, TT) = meshgrid_xy (contour_K k_mle) (contour_T th_mle);
          n = real (length x);
          s1 = sum_list (map ln x);
          s2 = sum_list x
      in map2 (map2 (\<lambda>k t. (k - 1) * s1 - (s2 / t) - n * k * ln t - n * gammaln L k)) KK TT)"

section \<open>The grid with the range of float64\<close>

text \<open>
  The definitions above read the arithmetic of \<open>plot_ll_contour\<close> exactly.  The ones
  below read the same lines with the range of a float64: a result at or beyond the
  overflow threshold \<open>2^1024 - 2^970\<close> is an infinity, and the infinities and NaN
  combine as IEEE 754 has it.  Rounding inside the range is still left out, and the
  reals carry no sign for zero.
\<close>

definition f64_bound :: real where
  "f64_bound = 2 ^ 1024 - 2 ^ 970"

definition f64 :: "real \<Rightarrow> fval" where
  "f64 r = (if f64_bound \<le> r then PInf else if r \<le> - f64_bound then NInf else Fin r)"

fun fneg :: "fval \<Rightarrow> fval" where
  "fneg (Fin a) = Fin (- a)"
| "fneg PInf = NInf"
| "fneg NInf = PInf"
| "fneg NaN = NaN"

fun fadd :: "fval \<Rightarrow> fval \<Rightarrow> fval" where
  "fadd (Fin a) (Fin b) = f64 (a + b)"
| "fadd NaN y = NaN"
| "fadd x NaN = NaN"
| "fadd PInf NInf = NaN"
| "fadd NInf PInf = NaN"
| "fadd PInf y = PInf"
| "fadd x PInf = PInf"
| "fadd NInf y = NInf"
| "fadd x NInf = NInf"

definition fsub :: "fval \<Rightarrow> fval \<Rightarrow> fval" where
  "fsub x y = fadd x (fneg y)"

text \<open>The sign of a value that is not NaN.\<close>

fun fsign :: "fval \<Rightarrow> int" where
  "fsign (Fin a) = (if a < 0 then - 1 else if a = 0 then 0 else 1)"
| "fsign PInf = 1"
| "fsign NInf = - 1"
| "fsign NaN = 0"

definition signed_inf :: "int \<Rightarrow> fval" where
  "signed_inf s = (if s = 0 then NaN else if 0 < s then PInf else NInf)"

fun fmul :: "fval \<Rightarrow> fval \<Rightarrow> fval" where
  "fmul (Fin a) (Fin b) = f64 (a * b)"
| "fmul NaN y = NaN"
| "fmul x NaN = NaN"
| "fmul x y = signed_inf (fsign x * fsign y)"

fun fdiv :: "fval \<Rightarrow> fval \<Rightarrow> fval" where
  "fdiv (Fin a) (Fin b) = (if b = 0 then signed_inf (fsign (Fin a)) else f64 (a / b))"
| "fdiv NaN y = NaN"
| "fdiv x NaN = NaN"
| "fdiv (Fin a) y = Fin 0"
| "fdiv x (Fin b) = (if b < 0 then fneg x else x)"
| "fdiv x y = NaN"

text \<open>\<open>np.log\<close>.\<close>

fun fln :: "fval \<Rightarrow> fval" where
  "fln (Fin a) = (if 0 < a then Fin (ln a) else if a = 0 then NInf else NaN)"
| "fln PInf = PInf"
| "fln NInf = NaN"
| "fln NaN = NaN"

text \<open>The comparison \<open>a < b\<close>: false when either side is NaN.\<close>

fun fless :: "fval \<Rightarrow> fval \<Rightarrow> bool" where
  "fless (Fin a) (Fin b) = (a < b)"
| "fless NaN y = False"
| "fless x NaN = False"
| "fless x NInf = False"
| "fless PInf y = False"
| "fless x y = True"

text \<open>Python's \<open>max(a, b)\<close>: \<open>b\<close> when \<open>b > a\<close>, else \<open>a\<close>.\<close>

definition pymax :: "fval \<Rightarrow> fval \<Rightarrow> fval" where
  "pymax a b = (if fless a b then b else a)"

text \<open>\<open>np.sum\<close> of an array.\<close>

definition fsum :: "fval list \<Rightarrow> fval" where
  "fsum xs = fold (\<lambda>v acc. fadd acc v) xs (Fin 0)"

text \<open>
  \<open>scipy.special.gammaln\<close> on an array element: the library's value, brought into the
  range, for a finite argument, and the library's own answer for an infinity or NaN.
\<close>

definition gammaln64 :: "numlib \<Rightarrow> fval \<Rightarrow> fval" where
  "gammaln64 L v = (case v of Fin k \<Rightarrow> f64 (gammaln L k) | _ \<Rightarrow> gammaln_special L v)"

text \<open>
  \<open>np.linspace\<close> as numpy computes it: \<open>arange(num) * step + start\<close> with
  \<open>step = (stop - start) / (num - 1)\<close>, and the last value then set to \<open>stop\<close>; with
  fewer than two points there is no step and the points are \<open>arange(num) * (stop - start)
  + start\<close>.
\<close>

definition linspace64 :: "fval \<Rightarrow> fval \<Rightarrow> nat \<Rightarrow> fval list" where
  "linspace64 start stop num =
     (let delta = fsub stop start
      in if num < 2 then map (\<lambda>i. fadd (fmul (Fin (real i)) delta) start) [0..<num]
         else (let step = fdiv delta (Fin (real (num - 1)))
               in map (\<lambda>i. fadd (fmul (Fin (real i)) step) start) [0..<num - 1] @ [stop]))"

definition contour_K64 :: "real \<Rightarrow> fval list" where
  "contour_K64 k_mle =
     (let k_lo = pymax (Fin (1 / 1000)) (fmul (Fin k_mle) (Fin 0.25));
          k_hi = fmul (Fin k_mle) (Fin 4)
      in linspace64 k_lo k_hi 180)"

definition contour_T64 :: "real \<Rightarrow> fval list" where
  "contour_T64 th_mle =
     (let th_lo = pymax (Fin (1 / 1000000)) (fmul (Fin th_mle) (Fin 0.25));
          th_hi = fmul (Fin th_mle) (Fin 4)
      in linspace64 th_lo th_hi 180)"

definition meshgrid_xy64 :: "fval list \<Rightarrow> fval list \<Rightarrow> fval list list \<times> fval list list" where
  "meshgrid_xy64 K T = (map (\<lambda>t. K) T, map (\<lambda>t. map (\<lambda>k. t) K) T)"

text \<open>One cell of \<open>ll\<close>: the expression of line 80 on a pair of mesh values.\<close>

definition ll_cell64 :: "numlib \<Rightarrow> fval \<Rightarrow> fval \<Rightarrow> fval \<Rightarrow> fval \<Rightarrow> fval \<Rightarrow> fval" where
  "ll_cell64 L n s1 s2 k t =
     fsub (fsub (fsub (fmul (fsub k (Fin 1)) s1) (fdiv s2 t))
                (fmul (fmul n k) (fln t)))
          (fmul n (gammaln64 L k))"

definition contour_ll64 :: "numlib \<Rightarrow> real list \<Rightarrow> real \<Rightarrow> real \<Rightarrow> fval list list" where
  "contour_ll64 L x k_mle th_mle =
     (let (KK, TT) = meshgrid_xy64 (contour_K64 k_mle) (contour_T64 th_mle);
          n = Fin (real (length x));
          s1 = fsum (map (\<lambda>xi. fln (Fin xi)) x);
          s2 = fsum (map Fin x)
      in map2 (map2 (ll_cell64 L n s1 s2)) KK TT)"

text \<open>
  \<open>np.nanmax\<close>: the largest of the cells that are not NaN, and NaN (with a warning)
  when every cell is NaN.
\<close>

definition nanmax :: "fval list list \<Rightarrow> fval" where
  "nanmax a =
     (case filter (\<lambda>v. v \<noteq> NaN) (concat a) of
        [] \<Rightarrow> NaN
      | v # vs \<Rightarrow> fold (\<lambda>y m. if fless m y then y else m) vs v)"

text \<open>The array \<open>z\<close> of \<open>plot_ll_contour\<close>.\<close>

definition contour_z :: "numlib \<Rightarrow> real list \<Rightarrow> real \<Rightarrow> real \<Rightarrow> fval list list" where
  "contour_z L x k_mle th_mle =
     (let ll = contour_ll64 L x k_mle th_mle;
          ll_max = nanmax ll
      in map (map (\<lambda>v. fsub v ll_max)) ll)"

text \<open>Every intermediate result of one cell of \<open>ll\<close> is inside the range.\<close>

definition cell_in_range :: "numlib \<Rightarrow> real \<Rightarrow> real \<Rightarrow> real \<Rightarrow> real \<Rightarrow> real \<Rightarrow> bool" where
  "cell_in_range L n s1 s2 k t \<longleftrightarrow>
     \<bar>k - 1\<bar> < f64_bound \<and> \<bar>(k - 1) * s1\<bar> < f64_bound \<and> \<bar>s2 / t\<bar> < f64_bound
     \<and> \<bar>(k - 1) * s1 - s2 / t\<bar> < f64_bound
     \<and> \<bar>n * k\<bar> < f64_bound \<and> \<bar>n * k * ln t\<bar> < f64_bound
     \<and> \<bar>(k - 1) * s1 - s2 / t - n * k * ln t\<bar> < f64_bound
     \<and> \<bar>gammaln L k\<bar> < f64_bound \<and> \<bar>n * gammaln L k\<bar> < f64_bound
     \<and> \<bar>(k - 1) * s1 - s2 / t - n * k * ln t - n * gammaln L k\<bar> < f64_bound"

definition contour_levels :: "real list" where
  "contour_levels = [-9.21, -5.99, -3.00, -2.00, -1.00, -0.50, -0.10]"

text \<open>What a figure shows; \<open>plt.savefig\<close> stores it under a path.\<close>

datatype figure =
    HistFig (hist_data: "real list") (hist_bins: nat) (curve_x: "real list")
      (curve_y: "real list") (fig_title: string)
  | ContourFig (axis_x: "fval list") (axis_y: "fval list") (surface: "fval list list")
      (levels: "real list") (marker: "real \<times> real") (fig_title: string)


section \<open>Text formatting\<close>

text \<open>Decimal digits of a natural number: \<open>str(n)\<close> for a non-negative integer.\<close>

fun dec :: "nat \<Rightarrow> string" where
  "dec n = (if n < 10 then [''0123456789'' ! n] else dec (n div 10) @ [''0123456789'' ! (n mod 10)])"

declare dec.simps [simp del]

text \<open>The format \<open>{i:03d}\<close> for a non-negative integer: zero-padded to width three.\<close>

definition pad3 :: "nat \<Rightarrow> string" where
  "pad3 i = replicate (3 - length (dec i)) CHR ''0'' @ dec i"

text \<open>Rounding to the nearest integer, ties to the even one.\<close>

definition round_half_even :: "real \<Rightarrow> int" where
  "round_half_even x =
     (let f = \<lfloor>x\<rfloor>; d = x - of_int f
      in if d < 1 / 2 then f else if 1 / 2 < d then f + 1 else if even f then f else f + 1)"

text \<open>
  The format \<open>{x:.pf}\<close> of a finite float: sign, integer part, and \<open>p\<close> digits after
  the point, the value correctly rounded.
\<close>

definition fmt_fixed :: "nat \<Rightarrow> real \<Rightarrow> string" where
  "fmt_fixed p x =
     (let q = nat (round_half_even (\<bar>x\<bar> * 10 ^ p));
          frac = dec (q mod 10 ^ p)
      in (if x < 0 then ''-'' else []) @ dec (q div 10 ^ p) @
         (if p = 0 then [] else ''.'' @ replicate (p - length frac) CHR ''0'' @ frac))"

definition nl :: string where
  "nl = [CHR 0x0A]"

definition tab :: string where
  "tab = [CHR 0x09]"

section \<open>Files and tables\<close>

text \<open>
  What a run leaves behind: the files it wrote, by path, and the lines it printed.
  Creating directories and writing a file are taken to succeed.
\<close>

datatype artifact = Report string | Image figure | Tsv string

record world =
  files :: "string \<rightharpoonup> artifact"
  stdout :: "string list"

definition print_line :: "string \<Rightarrow> world \<Rightarrow> world" where
  "print_line s w = w\<lparr>stdout := stdout w @ [s]\<rparr>"

definition write_file :: "string \<Rightarrow> artifact \<Rightarrow> world \<Rightarrow> world" where
  "write_file path a w = w\<lparr>files := (files w)(path \<mapsto> a)\<rparr>"

text \<open>
  A data frame as \<open>pd.read_csv\<close> returns it: columns in file order, with distinct names,
  each with its dtype and with the array that
  \<open>pd.to_numeric(df[col], errors="coerce").to_numpy()\<close> gives for it.
\<close>

datatype dtype = DInt | DFloat | DBool | DObject

record column =
  cname :: string
  cdtype :: dtype
  cvalues :: "fval list"

type_synonym table = "column list"

definition columns :: "table \<Rightarrow> string list" where
  "columns df = map cname df"

text \<open>\<open>pd.api.types.is_numeric_dtype\<close> counts booleans; \<open>select_dtypes("number")\<close> does not.\<close>

fun is_numeric_dtype :: "dtype \<Rightarrow> bool" where
  "is_numeric_dtype DObject = False"
| "is_numeric_dtype d = True"

fun is_number_dtype :: "dtype \<Rightarrow> bool" where
  "is_number_dtype DInt = True"
| "is_number_dtype DFloat = True"
| "is_number_dtype d = False"

definition to_numeric :: "table \<Rightarrow> string \<Rightarrow> fval list" where
  "to_numeric df c = (case find (\<lambda>k. cname k = c) df of Some k \<Rightarrow> cvalues k | None \<Rightarrow> [])"

section \<open>The estimator (50_gamma_mle.py)\<close>

definition fit_gamma_loc0 :: "numlib \<Rightarrow> fval list \<Rightarrow> exn + (real \<times> real \<times> nat \<times> real)" where
  "fit_gamma_loc0 L x0 =
     (let x = positive_finite x0
      in if length x = 0 then Inl (SystemExit ''No positive finite values to fit.'')
         else (case gamma_fit L x of
                 Inl e \<Rightarrow> Inl e
               | Inr (k, loc, theta) \<Rightarrow>
                   Inr (k, theta, length x, sum_list x / real (length x))))"

definition report_text :: "string \<Rightarrow> string \<Rightarrow> real \<Rightarrow> real \<Rightarrow> nat \<Rightarrow> real \<Rightarrow> string" where
  "report_text source c k theta n mean_x =
     ''Gamma MLE (loc=0)'' @ nl @
     ''source      : '' @ source @ nl @
     ''column      : '' @ c @ nl @
     ''n           : '' @ dec n @ nl @
     ''k (shape)   : '' @ fmt_fixed 6 k @ nl @
     ''theta(scale): '' @ fmt_fixed 6 theta @ nl @
     ''E[X]=k*theta: '' @ fmt_fixed 6 (k * theta) @ '' months'' @ nl @
     ''sample mean : '' @ fmt_fixed 6 mean_x @ '' months'' @ nl"

definition write_report ::
  "string \<Rightarrow> string \<Rightarrow> string \<Rightarrow> real \<Rightarrow> real \<Rightarrow> nat \<Rightarrow> real \<Rightarrow> world \<Rightarrow> world" where
  "write_report path source c k theta n mean_x w =
     write_file path (Report (report_text source c k theta n mean_x)) w"

text \<open>
  The column that \<open>main\<close> of the estimator reads: the one asked for, else
  \<open>lifespan_months\<close>, else \<open>df.select_dtypes("number").columns[0]\<close>, an index
  error when there is none.
\<close>

definition mle_select_col :: "table \<Rightarrow> string \<Rightarrow> exn + string" where
  "mle_select_col df c =
     (if c \<in> set (columns df) then Inr c
      else if ''lifespan_months'' \<in> set (columns df) then Inr ''lifespan_months''
      else (case columns (filter (\<lambda>k. is_number_dtype (cdtype k)) df) of
              [] \<Rightarrow> Inl IndexError
            | c0 # cs \<Rightarrow> Inr c0))"

record mle_args =
  mle_tsv :: string
  mle_out :: string
  mle_col :: string

definition mle_main ::
  "numlib \<Rightarrow> (string \<Rightarrow> exn + table) \<Rightarrow> mle_args \<Rightarrow> world \<Rightarrow> (exn + unit) \<times> world" where
  "mle_main L read_csv args w =
     (case read_csv (mle_tsv args) of
        Inl e \<Rightarrow> (Inl e, w)
      | Inr df \<Rightarrow>
          (case mle_select_col df (mle_col args) of
             Inl e \<Rightarrow> (Inl e, w)
           | Inr c \<Rightarrow>
               (case fit_gamma_loc0 L (to_numeric df c) of
                  Inl e \<Rightarrow> (Inl e, w)
                | Inr (k, theta, n, mean_x) \<Rightarrow>
                    (let w1 = write_report (mle_out args) (mle_tsv args) c k theta n mean_x w;
                         w2 = print_line (float_str L k @ tab @ float_str L theta @ tab @
                                dec n @ tab @ float_str L mean_x) w1
                     in (Inr (), w2)))))"

section \<open>The renderer (60_plot_gamma.py)\<close>

text \<open>The column that \<open>_load_values\<close> reads.\<close>

definition plot_select_col :: "table \<Rightarrow> string \<Rightarrow> exn + string" where
  "plot_select_col df c =
     (if c \<notin> set (columns df) then
        (let num_cols = columns (filter (\<lambda>k. is_numeric_dtype (cdtype k)) df)
         in (case num_cols of
               [] \<Rightarrow> Inl (SystemExit ''No numeric column found and --col not present.'')
             | c0 # cs \<Rightarrow> Inr c0))
      else Inr c)"

definition load_values :: "(string \<Rightarrow> exn + table) \<Rightarrow> string \<Rightarrow> string \<Rightarrow> exn + real list" where
  "load_values read_csv tsv_path c =
     (case read_csv tsv_path of
        Inl e \<Rightarrow> Inl e
      | Inr df \<Rightarrow>
          (case plot_select_col df c of
             Inl e \<Rightarrow> Inl e
           | Inr c1 \<Rightarrow>
               (let x = positive_finite (to_numeric df c1)
                in if length x = 0 then Inl (SystemExit ''No positive finite values to plot.'')
                   else Inr x)))"

text \<open>
  The two plotting functions, as what they store.  An exception that matplotlib itself
  may raise while drawing is not modelled.
\<close>

definition plot_hist_with_pdf ::
  "numlib \<Rightarrow> real list \<Rightarrow> real \<Rightarrow> real \<Rightarrow> string \<Rightarrow> string \<Rightarrow> nat \<Rightarrow> world \<Rightarrow> world" where
  "plot_hist_with_pdf L x k theta out_png ttl bins w =
     (let xs_max = max (percentile L x 99.5) (Max (set x));
          grid = linspace 0 (xs_max * 1.15) 400;
          pdf = map (\<lambda>g. gamma_pdf L g k theta) grid
      in write_file out_png (Image (HistFig x bins grid pdf ttl)) w)"

definition plot_ll_contour ::
  "numlib \<Rightarrow> real list \<Rightarrow> real \<Rightarrow> real \<Rightarrow> string \<Rightarrow> string \<Rightarrow> world \<Rightarrow> world" where
  "plot_ll_contour L x k_mle th_mle out_png ttl w =
     (let K = contour_K64 k_mle;
          T = contour_T64 th_mle;
          z = contour_z L x k_mle th_mle
      in write_file out_png
           (Image (ContourFig K T (transpose z) contour_levels (k_mle, th_mle)
              (ttl @ nl @ ''log-likelihood contours (loc=0)''))) w)"

record plot_args =
  plot_tsv :: string
  plot_col :: string
  plot_k :: real
  plot_theta :: real
  plot_title :: string
  plot_outprefix :: string

definition plot_main ::
  "numlib \<Rightarrow> (string \<Rightarrow> exn + table) \<Rightarrow> plot_args \<Rightarrow> world \<Rightarrow> (exn + unit) \<times> world" where
  "plot_main L read_csv args w =
     (case load_values read_csv (plot_tsv args) (plot_col args) of
        Inl e \<Rightarrow> (Inl e, w)
      | Inr x \<Rightarrow>
          (let w1 = plot_hist_with_pdf L x (plot_k args) (plot_theta args)
                      (plot_outprefix args @ ''_hist.png'') (plot_title args) 40 w;
               w2 = plot_ll_contour L x (plot_k args) (plot_theta args)
                      (plot_outprefix args @ ''_llcontour.png'') (plot_title args) w1;
               w3 = print_line (''[plot] wrote '' @ plot_outprefix args @ ''_hist.png'') w2;
               w4 = print_line (''[plot] wrote '' @ plot_outprefix args @ ''_llcontour.png'') w3
           in (Inr (), w4)))"

section \<open>The generator: text (peek_behind_the_curtain/generate_data.py)\<close>

text \<open>
  Strings are lists of 8-bit characters.  \<open>str.strip\<close> removes the white space of that
  range at both ends, \<open>str.splitlines\<close> breaks at its line boundaries, and \<open>str.upper\<close>
  is only used to compare a prefix with ASCII text, so it is modelled on ASCII letters.
\<close>

definition is_space :: "char \<Rightarrow> bool" where
  "is_space c \<longleftrightarrow>
     c \<in> set [CHR 0x09, CHR 0x0A, CHR 0x0B, CHR 0x0C, CHR 0x0D, CHR 0x1C, CHR 0x1D, CHR 0x1E,
              CHR 0x1F, CHR 0x20, CHR 0x85, CHR 0xA0]"

definition is_linebreak :: "char \<Rightarrow> bool" where
  "is_linebreak c \<longleftrightarrow>
     c \<in> set [CHR 0x0A, CHR 0x0B, CHR 0x0C, CHR 0x0D, CHR 0x1C, CHR 0x1D, CHR 0x1E, CHR 0x85]"

definition strip :: "string \<Rightarrow> string" where
  "strip s = rev (dropWhile is_space (rev (dropWhile is_space s)))"

fun splitlines_from :: "string \<Rightarrow> string \<Rightarrow> string list" where
  "splitlines_from cur [] = (if cur = [] then [] else [cur])"
| "splitlines_from cur [c] = (if is_linebreak c then [cur] else [cur @ [c]])"
| "splitlines_from cur (c # d # cs) =
     (if c = CHR 0x0D \<and> d = CHR 0x0A then cur # splitlines_from [] cs
      else if is_linebreak c then cur # splitlines_from [] (d # cs)
      else splitlines_from (cur @ [c]) (d # cs))"

definition splitlines :: "string \<Rightarrow> string list" where
  "splitlines s = splitlines_from [] s"

definition upper_char :: "char \<Rightarrow> char" where
  "upper_char c =
     (case map_of (zip ''abcdefghijklmnopqrstuvwxyz'' ''ABCDEFGHIJKLMNOPQRSTUVWXYZ'') c of
        Some u \<Rightarrow> u
      | None \<Rightarrow> c)"

definition upper :: "string \<Rightarrow> string" where
  "upper s = map upper_char s"

definition startswith :: "string \<Rightarrow> string \<Rightarrow> bool" where
  "startswith s p \<longleftrightarrow> take (length p) s = p"

text \<open>\<open>line.split(":", 1)[1]\<close> for a line that has a colon.\<close>

definition after_colon :: "string \<Rightarrow> string" where
  "after_colon line = tl (dropWhile (\<lambda>c. c \<noteq> CHR '':'') line)"

fun parse_lines :: "string list \<Rightarrow> string \<Rightarrow> string \<Rightarrow> string \<times> string" where
  "parse_lines [] title body = (title, body)"
| "parse_lines (l # ls) title body =
     (let line = strip l
      in if startswith (upper line) ''TITLE:'' then parse_lines ls (strip (after_colon line)) body
         else if startswith (upper line) ''BODY:'' then parse_lines ls title (strip (after_colon line))
         else parse_lines ls title body)"

definition parse_title_body :: "string \<Rightarrow> string \<times> string" where
  "parse_title_body llm_text = parse_lines (splitlines llm_text) [] []"

text \<open>\<open>template.format(m=months)\<close> for a template whose only field is \<open>{m:.1f}\<close>.\<close>

function format_m :: "string \<Rightarrow> real \<Rightarrow> string" where
  "format_m [] m = []"
| "format_m (c # cs) m =
     (if take 7 (c # cs) = ''{m:.1f}'' then fmt_fixed 1 m @ format_m (drop 6 cs) m
      else c # format_m cs m)"
  by pat_completeness auto
termination
  by (relation "measure (\<lambda>(s, m). length s)") auto

definition FAILURE_TITLES :: "string list" where
  "FAILURE_TITLES =
     [''Battery died early'', ''Stopped holding charge'', ''Busted after a few months'',
      ''Gave out too soon'', ''Power issues returned'']"

definition FAILURE_BODIES :: "string list" where
  "FAILURE_BODIES =
     [''Worked fine at first but stopped working after about {m:.1f} months.'',
      ''Battery died roughly {m:.1f} months in, now it barely powers on.'',
      ''After around {m:.1f} months, it gave out and will not hold charge.'',
      ''About {m:.1f} months after buying, it just quit.'']"

definition OTHER_TITLES :: "string list" where
  "OTHER_TITLES =
     [''Arrived fast'', ''Decent value'', ''Solid packaging'', ''As described'', ''Good service'']"

definition OTHER_BODIES :: "string list" where
  "OTHER_BODIES =
     [''Shipping was quick and packaging was fine.'',
      ''Price was fair and it fits as expected.'',
      ''Customer support answered my questions promptly.'',
      ''Using it daily so far; no complaints.'',
      ''Seems fine out of the box; will update later.'']"

definition dq :: string where
  "dq = [CHR 0x22]"

definition failure_prompt :: "string \<Rightarrow> real \<Rightarrow> string" where
  "failure_prompt brand months =
     ''You are writing a short customer review about a laptop battery that stopped working.'' @ nl @
     ''Brand: '' @ brand @ nl @
     ''Time since purchase when it stopped working: about '' @ fmt_fixed 1 months @ '' months'' @ nl @
     nl @
     ''Write a concise review title and a concise review body (1-2 sentences). '' @
     ''Do not mention exact months every time; vary wording like '' @
     dq @ ''stopped working,'' @ dq @ '' '' @ dq @ ''gave out,'' @ dq @ '' '' @
     dq @ ''busted,'' @ dq @ '' or '' @ dq @ ''died'' @ dq @ ''. '' @
     ''It should clearly imply the battery stopped working. Output as:'' @ nl @
     nl @
     ''TITLE: <one short line>'' @ nl @
     ''BODY: <one or two short sentences>''"

definition other_prompt :: "string \<Rightarrow> string" where
  "other_prompt brand =
     ''You are writing a short customer review about a laptop battery '' @
     ''that does NOT mention it stopped working.'' @ nl @
     ''Brand: '' @ brand @ nl @
     nl @
     ''Write a concise review title and a concise review body (1-2 sentences). '' @
     ''Mention things like shipping, packaging, price, customer service, or general '' @
     ''impressions, but do not imply failure. Output as:'' @ nl @
     nl @
     ''TITLE: <one short line>'' @ nl @
     ''BODY: <one or two short sentences>''"

section \<open>The generator: the text service\<close>

datatype json =
    JNull
  | JBool bool
  | JNum real
  | JStr string
  | JList "json list"
  | JDict "(string \<times> json) list"

text \<open>
  What \<open>urlopen\<close>, \<open>read\<close>, \<open>decode\<close> and \<open>json.loads\<close> give inside the \<open>try\<close> of
  \<open>_hf_generate\<close>: an exception (a timeout, a network or HTTP error, bytes that are not
  UTF-8, text that is not JSON), or the decoded value.
\<close>

datatype outcome = Raises exn | Loads json

text \<open>
  The process environment, read once at import, and the service: the outcome of the
  \<open>n\<close>-th request of a run, given its URL, token, prompt and token budget.
\<close>

record env =
  HF_TOKEN :: "string option"
  TEXTGEN_MODEL :: "string option"

type_synonym service = "nat \<Rightarrow> string \<Rightarrow> string \<Rightarrow> string \<Rightarrow> nat \<Rightarrow> outcome"

definition HF_MODEL :: "env \<Rightarrow> string" where
  "HF_MODEL e = (case TEXTGEN_MODEL e of Some m \<Rightarrow> m | None \<Rightarrow> ''google/gemma-2-2b-it'')"

definition HF_URL :: "env \<Rightarrow> string" where
  "HF_URL e = ''https://api-inference.huggingface.co/models/'' @ HF_MODEL e"

text \<open>The truth value of \<open>HF_TOKEN\<close>: unset and empty both count as false.\<close>

definition token_set :: "env \<Rightarrow> bool" where
  "token_set e \<longleftrightarrow> (case HF_TOKEN e of None \<Rightarrow> False | Some t \<Rightarrow> t \<noteq> [])"

text \<open>\<open>"generated_text" in d\<close> and \<open>d["generated_text"]\<close> for a decoded value \<open>d\<close>.\<close>

fun substring :: "string \<Rightarrow> string \<Rightarrow> bool" where
  "substring p [] = (p = [])"
| "substring p (c # cs) = (take (length p) (c # cs) = p \<or> substring p cs)"

fun json_contains :: "json \<Rightarrow> string \<Rightarrow> exn + bool" where
  "json_contains (JDict kvs) key = Inr (key \<in> set (map fst kvs))"
| "json_contains (JStr s) key = Inr (substring key s)"
| "json_contains (JList xs) key = Inr (JStr key \<in> set xs)"
| "json_contains JNull key = Inl TypeError"
| "json_contains (JBool b) key = Inl TypeError"
| "json_contains (JNum r) key = Inl TypeError"

fun json_item :: "json \<Rightarrow> string \<Rightarrow> exn + json" where
  "json_item (JDict kvs) key = (case map_of kvs key of Some v \<Rightarrow> Inr v | None \<Rightarrow> Inl KeyError)"
| "json_item d key = Inl TypeError"

text \<open>\<open>str(v)\<close>: a string is itself; the text of any other value is the library's.\<close>

fun py_str :: "(json \<Rightarrow> string) \<Rightarrow> json \<Rightarrow> string" where
  "py_str repr (JStr s) = s"
| "py_str repr v = repr v"

text \<open>The body of the \<open>try\<close> block, after the value has been loaded.\<close>

definition hf_result :: "(json \<Rightarrow> string) \<Rightarrow> json \<Rightarrow> exn + string" where
  "hf_result repr data =
     (case (case data of
              JList (d0 # ds) \<Rightarrow>
                (case json_contains d0 ''generated_text'' of
                   Inl e \<Rightarrow> Inl e
                 | Inr False \<Rightarrow> Inr None
                 | Inr True \<Rightarrow>
                     (case json_item d0 ''generated_text'' of
                        Inl e \<Rightarrow> Inl e
                      | Inr v \<Rightarrow> Inr (Some (strip (py_str repr v)))))
            | _ \<Rightarrow> Inr None) of
        Inl e \<Rightarrow> Inl e
      | Inr (Some s) \<Rightarrow> Inr s
      | Inr None \<Rightarrow> (case data of JStr s \<Rightarrow> Inr (strip s) | _ \<Rightarrow> Inr []))"

text \<open>
  \<open>_hf_generate\<close>, with the count of requests made so far.  \<open>except Exception\<close> turns
  every exception that derives from \<open>Exception\<close> into the empty string; any other one
  passes through.
\<close>

definition hf_generate ::
  "env \<Rightarrow> service \<Rightarrow> (json \<Rightarrow> string) \<Rightarrow> string \<Rightarrow> nat \<Rightarrow> nat \<Rightarrow> (exn + string) \<times> nat" where
  "hf_generate e post repr prompt max_new_tokens n =
     (if \<not> token_set e then (Inr [], n)
      else (case (case post n (HF_URL e) (the (HF_TOKEN e)) prompt max_new_tokens of
                    Raises x \<Rightarrow> Inl x
                  | Loads data \<Rightarrow> hf_result repr data) of
              Inl x \<Rightarrow> (if is_Exception x then (Inr [], Suc n) else (Inl x, Suc n))
            | Inr s \<Rightarrow> (Inr s, Suc n)))"

section \<open>The generator: random numbers, dates and rows\<close>

text \<open>
  The library objects of the generator, parameters of the model: a \<open>random.Random\<close>
  with state \<open>'r\<close> (each method returns its result and the next state), the array that
  \<open>np.random.default_rng(seed).gamma(shape, scale, size)\<close> draws, the parsing and printing
  of a calendar day as \<open>%Y-%m-%d\<close> (a day is its proleptic ordinal, 1 to 3652059), the
  text \<open>csv.writer\<close> produces for a list of rows, and \<open>str\<close> of a decoded JSON value.
\<close>

type_synonym row = "string list"

record 'r pylib =
  rng_seed :: "int \<Rightarrow> 'r"
  rng_randrange :: "'r \<Rightarrow> int \<Rightarrow> int \<times> 'r"
  rng_choice_str :: "'r \<Rightarrow> string list \<Rightarrow> string \<times> 'r"
  rng_choice_chr :: "'r \<Rightarrow> string \<Rightarrow> char \<times> 'r"
  rng_choices :: "'r \<Rightarrow> int list \<Rightarrow> real list \<Rightarrow> int \<times> 'r"
  rng_random :: "'r \<Rightarrow> real \<times> 'r"
  rng_uniform :: "'r \<Rightarrow> real \<Rightarrow> real \<Rightarrow> real \<times> 'r"
  rng_shuffle :: "'r \<Rightarrow> row list \<Rightarrow> row list \<times> 'r"
  np_gamma :: "int \<Rightarrow> real \<Rightarrow> real \<Rightarrow> nat \<Rightarrow> real list"
  strptime_ymd :: "string \<Rightarrow> int option"
  strftime_ymd :: "int \<Rightarrow> string"
  csv_text :: "row list \<Rightarrow> string"
  json_repr :: "json \<Rightarrow> string"

text \<open>Sequencing of steps that may raise.\<close>

definition bindE :: "exn + 'a \<Rightarrow> ('a \<Rightarrow> exn + 'b) \<Rightarrow> exn + 'b" where
  "bindE m f = (case m of Inl e \<Rightarrow> Inl e | Inr v \<Rightarrow> f v)"

text \<open>The product is the exact one; the code rounds it to a double.\<close>

definition months_to_days :: "real \<Rightarrow> real" where
  "months_to_days m = m * 30.44"

text \<open>
  A \<open>datetime\<close> is its count of microseconds since the midnight that begins ordinal
  day 0; a \<open>timedelta\<close> is a count of microseconds.  \<open>timedelta(days=d)\<close> rounds to the
  microsecond and refuses more than 999999999 days; adding refuses a result outside
  the days 1 to 3652059.
\<close>

definition us_per_day :: int where
  "us_per_day = 86400000000"

definition timedelta_days :: "real \<Rightarrow> exn + int" where
  "timedelta_days d =
     (let us = round_half_even (d * real_of_int us_per_day)
      in if 999999999 < \<bar>us div us_per_day\<bar> then Inl OverflowError else Inr us)"

definition datetime_add :: "int \<Rightarrow> int \<Rightarrow> exn + int" where
  "datetime_add t td =
     (let days = (t + td) div us_per_day
      in if 0 < days \<and> days \<le> 3652059 then Inr (t + td) else Inl OverflowError)"

definition strftime :: "'r pylib \<Rightarrow> int \<Rightarrow> string" where
  "strftime P t = strftime_ymd P (t div us_per_day)"

definition add_months_as_days :: "int \<Rightarrow> real \<Rightarrow> exn + int" where
  "add_months_as_days start months =
     bindE (timedelta_days (months_to_days months)) (\<lambda>td. datetime_add start td)"

definition rand_date_ymd :: "'r pylib \<Rightarrow> string \<Rightarrow> string \<Rightarrow> 'r \<Rightarrow> exn + (int \<times> 'r)" where
  "rand_date_ymd P start_ymd end_ymd r =
     (case strptime_ymd P start_ymd of
        None \<Rightarrow> Inl ValueError
      | Some start \<Rightarrow>
          (case strptime_ymd P end_ymd of
             None \<Rightarrow> Inl ValueError
           | Some end_day \<Rightarrow>
               (let span_days = end_day - start
                in if span_days + 1 \<le> 0 then Inl ValueError
                   else (let (off, r1) = rng_randrange P r (span_days + 1)
                         in bindE (timedelta_days (real_of_int off))
                              (\<lambda>td. bindE (datetime_add (start * us_per_day) td)
                                 (\<lambda>t. Inr (t, r1)))))))"

fun order_chars :: "'r pylib \<Rightarrow> nat \<Rightarrow> 'r \<Rightarrow> string \<times> 'r" where
  "order_chars P 0 r = ([], r)"
| "order_chars P (Suc n) r =
     (let (c, r1) = rng_choice_chr P r ''0123456789ABCDEFGHIJKLMNOPQRSTUVWXYZ'';
          (cs, r2) = order_chars P n r1
      in (c # cs, r2))"

definition make_order_id :: "'r pylib \<Rightarrow> 'r \<Rightarrow> string \<times> 'r" where
  "make_order_id P r = (let (cs, r1) = order_chars P 9 r in (''O'' @ cs, r1))"

definition pick_stars_failure :: "'r pylib \<Rightarrow> 'r \<Rightarrow> int \<times> 'r" where
  "pick_stars_failure P r = rng_choices P r [1, 2, 3] [0.6, 0.3, 0.1]"

definition pick_stars_other :: "'r pylib \<Rightarrow> 'r \<Rightarrow> int \<times> 'r" where
  "pick_stars_other P r = rng_choices P r [3, 4, 5, 2] [0.2, 0.4, 0.35, 0.05]"

text \<open>The threshold is the decimal 0.85; the code compares with the double nearest to it.\<close>

definition pick_verified :: "'r pylib \<Rightarrow> 'r \<Rightarrow> string \<times> 'r" where
  "pick_verified P r = (let (u, r1) = rng_random P r in (if u < 0.85 then ''true'' else ''false'', r1))"

definition str_int :: "int \<Rightarrow> string" where
  "str_int i = (if i < 0 then ''-'' @ dec (nat (- i)) else dec (nat i))"

text \<open>The state of a run of the generator: its \<open>random.Random\<close> and its count of requests.\<close>

type_synonym 'r gstate = "'r \<times> nat"

definition gen_failure_text ::
  "env \<Rightarrow> service \<Rightarrow> 'r pylib \<Rightarrow> string \<Rightarrow> real \<Rightarrow> 'r gstate \<Rightarrow>
     exn + ((string \<times> string) \<times> 'r gstate)" where
  "gen_failure_text e post P brand months st =
     (let (r, n) = st;
          prompt = failure_prompt brand months;
          (res, n1) = (if token_set e then hf_generate e post (json_repr P) prompt 80 n
                       else (Inr [], n))
      in bindE res (\<lambda>text.
           let (t, b) = parse_title_body text;
               (t1, r1) = (if t = [] then rng_choice_str P r FAILURE_TITLES else (t, r));
               (b1, r2) = (if b = []
                           then (let (tpl, r') = rng_choice_str P r1 FAILURE_BODIES
                                 in (format_m tpl months, r'))
                           else (b, r1))
           in Inr ((t1, b1), (r2, n1))))"

definition gen_other_text ::
  "env \<Rightarrow> service \<Rightarrow> 'r pylib \<Rightarrow> string \<Rightarrow> 'r gstate \<Rightarrow>
     exn + ((string \<times> string) \<times> 'r gstate)" where
  "gen_other_text e post P brand st =
     (let (r, n) = st;
          prompt = other_prompt brand;
          (res, n1) = (if token_set e then hf_generate e post (json_repr P) prompt 80 n
                       else (Inr [], n))
      in bindE res (\<lambda>text.
           let (t, b) = parse_title_body text;
               (t1, r1) = (if t = [] then rng_choice_str P r OTHER_TITLES else (t, r));
               (b1, r2) = (if b = [] then rng_choice_str P r1 OTHER_BODIES else (b, r1))
           in Inr ((t1, b1), (r2, n1))))"

text \<open>\<open>np.finfo(float).eps\<close>.\<close>

definition float_eps :: real where
  "float_eps = 1 / 2 ^ 52"

text \<open>
  \<open>sample_gamma_lifespans\<close>.  numpy refuses a negative seed, a negative shape or scale,
  and a negative size.
\<close>

definition sample_gamma_lifespans ::
  "'r pylib \<Rightarrow> real \<Rightarrow> real \<Rightarrow> int \<Rightarrow> int \<Rightarrow> exn + real list" where
  "sample_gamma_lifespans P k theta n sd =
     (if sd < 0 \<or> k < 0 \<or> theta < 0 \<or> n < 0 then Inl ValueError
      else (let x = np_gamma P sd k theta (nat n)
            in Inr (map (\<lambda>v. max v float_eps) x)))"

section \<open>The generator: the dataset\<close>

text \<open>A \<open>for\<close> loop that appends one row per item and stops at the first exception.\<close>

fun for_each :: "('a \<Rightarrow> 's \<Rightarrow> exn + (row \<times> 's)) \<Rightarrow> 'a list \<Rightarrow> 's \<Rightarrow> exn + (row list \<times> 's)" where
  "for_each body [] st = Inr ([], st)"
| "for_each body (x # xs) st =
     (case body x st of
        Inl e \<Rightarrow> Inl e
      | Inr (row, st1) \<Rightarrow>
          (case for_each body xs st1 of
             Inl e \<Rightarrow> Inl e
           | Inr (rows, st2) \<Rightarrow> Inr (row # rows, st2)))"

text \<open>
  The body of the two loops over failures (\<open>tag\<close> is \<open>rA\<close> or \<open>rB\<close>, the item is the
  index from 1 and the lifespan), and of the two loops over the other reviews (\<open>tag\<close> is
  \<open>rAX\<close> or \<open>rBX\<close>, the item is the index from 0).
\<close>

definition failure_row ::
  "env \<Rightarrow> service \<Rightarrow> 'r pylib \<Rightarrow> string \<Rightarrow> string \<Rightarrow> string \<Rightarrow> string \<Rightarrow>
     nat \<times> real \<Rightarrow> 'r gstate \<Rightarrow> exn + (row \<times> 'r gstate)" where
  "failure_row e post P tag brand p_start p_end item st =
     (let (i, m) = item; (r, n) = st
      in bindE (rand_date_ymd P p_start p_end r) (\<lambda>(dp, r1).
         bindE (add_months_as_days dp m) (\<lambda>dpost.
         bindE (gen_failure_text e post P brand m (r1, n)) (\<lambda>((title, body), (r2, n1)).
           let (stars, r3) = pick_stars_failure P r2;
               (verified, r4) = pick_verified P r3;
               (order_id, r5) = make_order_id P r4
           in Inr ([tag @ pad3 i, brand, strftime P dp, strftime P dpost, title, body,
                    str_int stars, verified, order_id, fmt_fixed 2 m], (r5, n1))))))"

definition other_row ::
  "env \<Rightarrow> service \<Rightarrow> 'r pylib \<Rightarrow> string \<Rightarrow> string \<Rightarrow> string \<Rightarrow> string \<Rightarrow>
     nat \<Rightarrow> 'r gstate \<Rightarrow> exn + (row \<times> 'r gstate)" where
  "other_row e post P tag brand p_start p_end i st =
     (let (r, n) = st
      in bindE (rand_date_ymd P p_start p_end r) (\<lambda>(dp, r1).
         let (m, r2) = rng_uniform P r1 0.2 18.0
         in bindE (add_months_as_days dp m) (\<lambda>dpost.
            bindE (gen_other_text e post P brand (r2, n)) (\<lambda>((title, body), (r3, n1)).
              let (stars, r4) = pick_stars_other P r3;
                  (verified, r5) = pick_verified P r4;
                  (order_id, r6) = make_order_id P r5
              in Inr ([tag @ pad3 (i + 1), brand, strftime P dp, strftime P dpost, title, body,
                       str_int stars, verified, order_id, []], (r6, n1))))))"

record gen_args =
  out_tsv :: string
  n_fail_alpha :: int
  n_fail_beta :: int
  n_other_alpha :: int
  n_other_beta :: int
  k_alpha :: real
  th_alpha :: real
  k_beta :: real
  th_beta :: real
  purchase_start :: string
  purchase_end :: string
  seed :: int

definition tsv_header :: row where
  "tsv_header =
     [''review_id'', ''brand'', ''date_purchased'', ''date_posted'', ''review_title'',
      ''review_body'', ''stars'', ''verified'', ''order_id'', ''expected_signed_months_token'']"

text \<open>
  The rows of \<open>make_dataset\<close> before the shuffle: those of the two loops over failures,
  those of the two loops over the other reviews, and the state after the last loop.
  \<open>np.random.seed(seed)\<close> refuses a seed outside 0 to 2^32 - 1.
\<close>

definition generate_rows ::
  "env \<Rightarrow> service \<Rightarrow> 'r pylib \<Rightarrow> gen_args \<Rightarrow> exn + ((row list \<times> row list) \<times> 'r gstate)" where
  "generate_rows e post P a =
     (let rng = rng_seed P (seed a)
      in if seed a < 0 \<or> 2 ^ 32 \<le> seed a then Inl ValueError
         else
           bindE (sample_gamma_lifespans P (k_alpha a) (th_alpha a) (n_fail_alpha a) (seed a + 11))
             (\<lambda>lifespans_A.
           bindE (for_each (failure_row e post P ''rA'' ''Alpha'' (purchase_start a) (purchase_end a))
                    (enumerate 1 lifespans_A) (rng, 0))
             (\<lambda>(rows_A, st1).
           bindE (sample_gamma_lifespans P (k_beta a) (th_beta a) (n_fail_beta a) (seed a + 22))
             (\<lambda>lifespans_B.
           bindE (for_each (failure_row e post P ''rB'' ''Beta'' (purchase_start a) (purchase_end a))
                    (enumerate 1 lifespans_B) st1)
             (\<lambda>(rows_B, st2).
           bindE (for_each (other_row e post P ''rAX'' ''Alpha'' (purchase_start a) (purchase_end a))
                    [0..<nat (n_other_alpha a)] st2)
             (\<lambda>(rows_AX, st3).
           bindE (for_each (other_row e post P ''rBX'' ''Beta'' (purchase_start a) (purchase_end a))
                    [0..<nat (n_other_beta a)] st3)
             (\<lambda>(rows_BX, st4).
           Inr ((rows_A @ rows_B, rows_AX @ rows_BX), st4))))))))"

text \<open>The list \<open>rows\<close> after \<open>rng.shuffle(rows)\<close>.\<close>

definition dataset_rows :: "env \<Rightarrow> service \<Rightarrow> 'r pylib \<Rightarrow> gen_args \<Rightarrow> exn + row list" where
  "dataset_rows e post P a =
     bindE (generate_rows e post P a)
       (\<lambda>((failures, others), (r, n)). Inr (fst (rng_shuffle P r (failures @ others))))"

definition make_dataset ::
  "env \<Rightarrow> service \<Rightarrow> 'r pylib \<Rightarrow> gen_args \<Rightarrow> world \<Rightarrow> (exn + unit) \<times> world" where
  "make_dataset e post P a w =
     (case dataset_rows e post P a of
        Inl x \<Rightarrow> (Inl x, w)
      | Inr rows \<Rightarrow>
          (let w1 = write_file (out_tsv a) (Tsv (csv_text P (tsv_header # rows))) w;
               w2 = print_line (''[synth] wrote '' @ out_tsv a @ '' ('' @ dec (length rows) @
                      '' rows)'') w1
           in (Inr (), w2)))"

text \<open>
  The ways the text service can fail on a request: no credential, an exception that
  derives from \<open>Exception\<close>, or a decoded value that is neither a string nor a list
  whose first element is an object with the key \<open>generated_text\<close>.
\<close>

fun usable_payload :: "json \<Rightarrow> bool" where
  "usable_payload (JStr s) = True"
| "usable_payload (JList (JDict kvs # ds)) = (''generated_text'' \<in> set (map fst kvs))"
| "usable_payload d = False"

definition service_fails :: "env \<Rightarrow> service \<Rightarrow> nat \<Rightarrow> string \<Rightarrow> bool" where
  "service_fails e post n prompt \<longleftrightarrow>
     \<not> token_set e \<or>
     (case post n (HF_URL e) (the (HF_TOKEN e)) prompt 80 of
        Raises x \<Rightarrow> is_Exception x
      | Loads data \<Rightarrow> \<not> usable_payload data)"

section \<open>Concrete inputs for the examples\<close>

text \<open>
  A stand-in for the numeric library, used only where a statement is tried on a concrete
  input: at \<open>k = 1\<close> its \<open>gammaln\<close> agrees with the logarithm of the Gamma function.
\<close>

definition lib0 :: numlib where
  "lib0 = \<lparr>gammaln = (\<lambda>k. 0),
           gammaln_special = (\<lambda>v. v),
           gamma_pdf = (\<lambda>x a s. 0),
           gamma_fit = (\<lambda>xs. Inr (1, 0, sum_list xs / real (length xs))),
           percentile = (\<lambda>xs q. 0),
           float_str = fmt_fixed 6\<rparr>"

definition world0 :: world where
  "world0 = \<lparr>files = Map.empty, stdout = []\<rparr>"

definition table_nonpositive :: table where
  "table_nonpositive =
     [\<lparr>cname = ''lifespan_months'', cdtype = DFloat,
       cvalues = [Fin 0, Fin (- 1), NaN, PInf, NInf]\<rparr>]"

definition table_two_numeric :: table where
  "table_two_numeric =
     [\<lparr>cname = ''review_no'', cdtype = DInt, cvalues = [Fin 1, Fin 2]\<rparr>,
      \<lparr>cname = ''lifespan_months'', cdtype = DFloat, cvalues = [Fin 3.5, Fin 4]\<rparr>]"

text \<open>
  A stand-in for the generator's libraries, with a counter as the state of the random
  generator, and a service that fails in turn in each of its ways.
\<close>

definition pylib0 :: "nat pylib" where
  "pylib0 = \<lparr>rng_seed = (\<lambda>s. nat s),
             rng_randrange = (\<lambda>r n. (0, Suc r)),
             rng_choice_str = (\<lambda>r xs. (hd xs, Suc r)),
             rng_choice_chr = (\<lambda>r xs. (hd xs, Suc r)),
             rng_choices = (\<lambda>r pop ws. (hd pop, Suc r)),
             rng_random = (\<lambda>r. (1 / 2, Suc r)),
             rng_uniform = (\<lambda>r lo hi. (lo, Suc r)),
             rng_shuffle = (\<lambda>r xs. (rev xs, Suc r)),
             np_gamma = (\<lambda>s k theta n. replicate n (k * theta)),
             strptime_ymd = (\<lambda>s. if s = ''2023-01-01'' then Some 738521
                                  else if s = ''2024-12-31'' then Some 739251 else None),
             strftime_ymd = (\<lambda>d. dec (nat d)),
             csv_text = (\<lambda>rows. concat (map (\<lambda>fields. concat (map (\<lambda>f. f @ tab) fields) @ nl) rows)),
             json_repr = (\<lambda>j. ''?'')\<rparr>"

definition env_no_token :: env where
  "env_no_token = \<lparr>HF_TOKEN = None, TEXTGEN_MODEL = None\<rparr>"

definition env_empty_token :: env where
  "env_empty_token = \<lparr>HF_TOKEN = Some [], TEXTGEN_MODEL = Some ''other/model''\<rparr>"

definition env_token :: env where
  "env_token = \<lparr>HF_TOKEN = Some ''hf_x'', TEXTGEN_MODEL = None\<rparr>"

definition service_timeout :: service where
  "service_timeout n url token prompt k = Raises OSError"

definition service_error_payload :: service where
  "service_error_payload n url token prompt k = Loads (JDict [(''error'', JStr ''loading'')])"

definition service_text :: service where
  "service_text n url token prompt k =
     Loads (JList [JDict [(''generated_text'', JStr ''TITLE: Dead'')]])"

definition args_small :: gen_args where
  "args_small = \<lparr>out_tsv = ''raw/reviews.tsv'',
                 n_fail_alpha = 1, n_fail_beta = 0, n_other_alpha = 1, n_other_beta = 0,
                 k_alpha = 2, th_alpha = 4, k_beta = 3, th_beta = 3,
                 purchase_start = ''2023-01-01'', purchase_end = ''2024-12-31'', seed = 1234\<rparr>"

section \<open>Properties of the likelihood grid\<close>

lemma length_linspace: "length (linspace a b n) = n"
  by (simp add: linspace_def)

lemma nth_linspace:
  "1 < n \<Longrightarrow> i < n \<Longrightarrow> linspace a b n ! i = a + real i * ((b - a) / real (n - 1))"
  by (simp add: linspace_def)

lemma length_contour_K: "length (contour_K k) = 180"
  by (simp add: contour_K_def Let_def length_linspace)

lemma length_contour_T: "length (contour_T t) = 180"
  by (simp add: contour_T_def Let_def length_linspace)

lemma contour_ll_rows:
  "contour_ll L x k0 t0 =
     map (\<lambda>t. map (\<lambda>k. loglike_gamma_loc0 L x k t) (contour_K k0)) (contour_T t0)"
proof -
  have inner: "map2 f (K :: real list) (map (\<lambda>k. t) K) = map (\<lambda>k. f k t) K" for f :: "real \<Rightarrow> real \<Rightarrow> real" and K t
    by (induction K) simp_all
  have outer: "map2 g (map (\<lambda>t. K) T) (map h T) = map (\<lambda>t. g K (h t)) T"
    for g :: "real list \<Rightarrow> real list \<Rightarrow> real list" and K and h :: "real \<Rightarrow> real list" and T
    by (induction T) simp_all
  show ?thesis
    unfolding contour_ll_def meshgrid_xy_def loglike_gamma_loc0_def Let_def prod.case
    by (simp only: outer inner)
qed






lemma linspace_between:
  assumes "1 < n" and "v \<in> set (linspace a b n)"
  shows "min a b \<le> v \<and> v \<le> max a b"
proof -
  from assms obtain i where i: "i < n" and v: "v = a + real i * ((b - a) / real (n - 1))"
    by (auto simp: linspace_def)
  define s where "s = real i / real (n - 1)"
  have s: "0 \<le> s" "s \<le> 1"
    using i assms(1) by (simp_all add: s_def)
  have v': "v = a + s * (b - a)"
    by (simp add: v s_def)
  show ?thesis
  proof (cases "a \<le> b")
    case True
    have lo: "0 \<le> s * (b - a)"
      using s True by simp
    have hi: "s * (b - a) \<le> b - a"
      using s True mult_right_mono [of s 1 "b - a"] by simp
    have "a \<le> v" unfolding v' using lo by linarith
    moreover have "v \<le> b" unfolding v' using hi by linarith
    ultimately show ?thesis using True by simp
  next
    case False
    have hi: "s * (b - a) \<le> 0"
      using s False by (intro mult_nonneg_nonpos) simp_all
    have lo: "b - a \<le> s * (b - a)"
      using s False mult_right_mono_neg [of s 1 "b - a"] by simp
    have "b \<le> v" unfolding v' using lo by linarith
    moreover have "v \<le> a" unfolding v' using hi by linarith
    ultimately show ?thesis using False by simp
  qed
qed

lemma linspace_ends:
  assumes "1 < n"
  shows "linspace a b n ! 0 = a" and "linspace a b n ! (n - 1) = b"
  using assms by (simp_all add: nth_linspace)

lemma linspace_step:
  assumes "1 < n" and "Suc i < n"
  shows "linspace a b n ! Suc i - linspace a b n ! i = (b - a) / real (n - 1)"
proof -
  have e1: "linspace a b n ! Suc i = a + real (Suc i) * ((b - a) / real (n - 1))"
    using assms by (simp only: nth_linspace)
  have e2: "linspace a b n ! i = a + real i * ((b - a) / real (n - 1))"
    using assms by (simp only: nth_linspace Suc_lessD)
  have "a + real (Suc i) * c - (a + real i * c) = c" for c :: real
    by (simp add: algebra_simps)
  then show ?thesis unfolding e1 e2 .
qed

text \<open>
  C8.  The figure that \<open>plot_ll_contour\<close> saves is drawn at the seven levels
  \<open>-9.21, -5.99, -3.00, -2.00, -1.00, -0.50, -0.10\<close>, whatever the sample and the
  reference point are.
\<close>

theorem contour_levels_fixed:
  "\<exists>fig. files (plot_ll_contour L x k0 t0 out_png ttl w) out_png = Some (Image fig)
     \<and> levels fig = [-9.21, -5.99, -3.00, -2.00, -1.00, -0.50, -0.10]
     \<and> set (levels fig) = {-9.21, -5.99, -3.00, -2.00, -1.00, -0.50, -0.10}"
  by (simp add: plot_ll_contour_def write_file_def contour_levels_def Let_def)

section \<open>Properties of the grid with the range of float64\<close>

lemma f64_bound_positive: "0 < f64_bound"
  by (simp add: f64_bound_def)

lemma f64_exact: "\<bar>r\<bar> < f64_bound \<Longrightarrow> f64 r = Fin r"
  by (auto simp: f64_def)

lemma f64_zero: "f64 0 = Fin 0"
  using f64_bound_positive by (simp add: f64_exact)

lemma length_linspace64: "length (linspace64 a b n) = n"
  by (simp add: linspace64_def Let_def)

lemma length_contour_K64: "length (contour_K64 k) = 180"
  by (simp add: contour_K64_def Let_def length_linspace64)

lemma length_contour_T64: "length (contour_T64 t) = 180"
  by (simp add: contour_T64_def Let_def length_linspace64)

lemma last_linspace64: "1 < n \<Longrightarrow> linspace64 a b n ! (n - 1) = b"
  by (simp add: linspace64_def Let_def nth_append)

lemma contour_ll64_rows:
  "contour_ll64 L x k0 t0 =
     map (\<lambda>t. map (\<lambda>k. ll_cell64 L (Fin (real (length x)))
                         (fsum (map (\<lambda>xi. fln (Fin xi)) x)) (fsum (map Fin x)) k t)
                (contour_K64 k0))
         (contour_T64 t0)"
proof -
  have inner: "map2 f (K :: fval list) (map (\<lambda>k. t) K) = map (\<lambda>k. f k t) K"
    for f :: "fval \<Rightarrow> fval \<Rightarrow> fval" and K t
    by (induction K) simp_all
  have outer: "map2 g (map (\<lambda>t. K) T) (map h T) = map (\<lambda>t. g K (h t)) T"
    for g :: "fval list \<Rightarrow> fval list \<Rightarrow> fval list" and K and h :: "fval \<Rightarrow> fval list" and T
    by (induction T) simp_all
  show ?thesis
    unfolding contour_ll64_def meshgrid_xy64_def Let_def prod.case
    by (simp only: outer inner)
qed

text \<open>In the range, \<open>np.linspace\<close> is the exact one.\<close>

lemma linspace64_exact:
  assumes n: "1 < n" and a: "\<bar>a\<bar> < f64_bound" and b: "\<bar>b\<bar> < f64_bound"
    and d: "\<bar>b - a\<bar> < f64_bound"
  shows "linspace64 (Fin a) (Fin b) n = map Fin (linspace a b n)"
proof -
  define step where "step = (b - a) / real (n - 1)"
  have n1: "1 \<le> real (n - 1)" using n by simp
  have delta: "fsub (Fin b) (Fin a) = Fin (b - a)"
    using d by (simp add: fsub_def f64_exact)
  have "\<bar>b - a\<bar> / real (n - 1) \<le> \<bar>b - a\<bar> / 1"
    using n1 by (intro divide_left_mono) simp_all
  moreover have "\<bar>step\<bar> = \<bar>b - a\<bar> / real (n - 1)"
    by (simp add: step_def)
  ultimately have "\<bar>step\<bar> \<le> \<bar>b - a\<bar>"
    by simp
  then have sr: "\<bar>step\<bar> < f64_bound" using d by linarith
  have step: "fdiv (Fin (b - a)) (Fin (real (n - 1))) = Fin step"
    using n sr by (simp add: step_def f64_exact)
  have cell: "fadd (fmul (Fin (real i)) (Fin step)) (Fin a) = Fin (a + real i * step)"
    if i: "i < n" for i
  proof -
    have mem: "a + real i * step \<in> set (linspace a b n)"
      using n i by (auto simp: linspace_def step_def)
    have between: "min a b \<le> a + real i * step \<and> a + real i * step \<le> max a b"
      using linspace_between [OF n mem] .
    have r2: "\<bar>a + real i * step\<bar> < f64_bound"
      using between a b by (auto simp: min_def max_def abs_if split: if_splits)
    have "0 \<le> real i * step \<or> real i * step \<le> 0" by linarith
    have lo: "min a b - a \<le> real i * step" and hi: "real i * step \<le> max a b - a"
      using between by linarith+
    have r1: "\<bar>real i * step\<bar> < f64_bound"
      using lo hi d by (auto simp: min_def max_def abs_if split: if_splits)
    show ?thesis using r1 r2 by (simp add: f64_exact add.commute)
  qed
  have last: "a + real (n - 1) * step = b"
    using n by (simp add: step_def)
  have nn: "\<not> n < 2" using n by simp
  have m: "map (\<lambda>i. fadd (fmul (Fin (real i)) (Fin step)) (Fin a)) [0..<n - 1] =
      map (\<lambda>i. Fin (a + real i * step)) [0..<n - 1]"
  proof (rule map_cong [OF refl])
    fix i
    assume "i \<in> set [0..<n - 1]"
    then have "i < n" by simp
    then show "fadd (fmul (Fin (real i)) (Fin step)) (Fin a) = Fin (a + real i * step)"
      by (rule cell)
  qed
  have "linspace64 (Fin a) (Fin b) n =
      map (\<lambda>i. fadd (fmul (Fin (real i)) (Fin step)) (Fin a)) [0..<n - 1] @ [Fin b]"
    by (simp only: linspace64_def Let_def delta step nn if_False)
  also have "\<dots> = map (\<lambda>i. Fin (a + real i * step)) [0..<n - 1] @ [Fin b]"
    by (simp only: m)
  also have "\<dots> = map (\<lambda>i. Fin (a + real i * step)) ([0..<n - 1] @ [n - 1])"
    using last by simp
  also have "[0..<n - 1] @ [n - 1] = [0..<n]"
    using n by (metis Suc_diff_1 less_imp_Suc_add upt_Suc_append zero_le zero_less_Suc)
  also have "map (\<lambda>i. Fin (a + real i * step)) [0..<n] = map Fin (linspace a b n)"
    using n by (simp add: linspace_def step_def)
  finally show ?thesis .
qed

lemma contour_K64_exact:
  assumes "0 < k0" and "4 * k0 < f64_bound"
  shows "contour_K64 k0 = map Fin (contour_K k0)"
proof -
  have q: "\<bar>k0 * 0.25\<bar> < f64_bound" "\<bar>k0 * 4\<bar> < f64_bound"
    using assms by simp_all
  have lo: "pymax (Fin (1 / 1000)) (fmul (Fin k0) (Fin 0.25)) = Fin (max (1 / 1000) (k0 * 0.25))"
    using q(1) by (auto simp: pymax_def f64_exact max_def)
  have hi: "fmul (Fin k0) (Fin 4) = Fin (k0 * 4)"
    using q(2) by (simp add: f64_exact)
  have b1: "\<bar>max (1 / 1000) (k0 * 0.25)\<bar> < f64_bound"
    using assms by (auto simp: max_def f64_bound_def)
  have b2: "\<bar>k0 * 4 - max (1 / 1000) (k0 * 0.25)\<bar> < f64_bound"
    using assms by (auto simp: max_def abs_if f64_bound_def)
  show ?thesis
    unfolding contour_K64_def contour_K_def Let_def lo hi
    using linspace64_exact [of 180 "max (1 / 1000) (k0 * 0.25)" "k0 * 4"] b1 b2 q(2)
    by simp
qed

lemma contour_T64_exact:
  assumes "0 < t0" and "4 * t0 < f64_bound"
  shows "contour_T64 t0 = map Fin (contour_T t0)"
proof -
  have q: "\<bar>t0 * 0.25\<bar> < f64_bound" "\<bar>t0 * 4\<bar> < f64_bound"
    using assms by simp_all
  have lo: "pymax (Fin (1 / 1000000)) (fmul (Fin t0) (Fin 0.25)) =
      Fin (max (1 / 1000000) (t0 * 0.25))"
    using q(1) by (auto simp: pymax_def f64_exact max_def)
  have hi: "fmul (Fin t0) (Fin 4) = Fin (t0 * 4)"
    using q(2) by (simp add: f64_exact)
  have b1: "\<bar>max (1 / 1000000) (t0 * 0.25)\<bar> < f64_bound"
    using assms by (auto simp: max_def f64_bound_def)
  have b2: "\<bar>t0 * 4 - max (1 / 1000000) (t0 * 0.25)\<bar> < f64_bound"
    using assms by (auto simp: max_def abs_if f64_bound_def)
  show ?thesis
    unfolding contour_T64_def contour_T_def Let_def lo hi
    using linspace64_exact [of 180 "max (1 / 1000000) (t0 * 0.25)" "t0 * 4"] b1 b2 q(2)
    by simp
qed

text \<open>
  Once the term \<open>s2 / T\<close> of a cell is the positive infinity, the cell is the negative
  infinity or NaN, whatever the other terms are.
\<close>

lemma fsub_PInf: "fsub a PInf = NInf \<or> fsub a PInf = NaN"
  by (cases a) (simp_all add: fsub_def)

lemma fsub_from_low:
  assumes "c = NInf \<or> c = NaN"
  shows "fsub c b = NInf \<or> fsub c b = NaN"
  using assms by (cases b) (auto simp: fsub_def)

lemma fsub_low_low:
  assumes "c = NInf \<or> c = NaN" and "m = NInf \<or> m = NaN"
  shows "fsub c m = NaN"
  using assms by (auto simp: fsub_def)

lemma ll_cell64_sum_overflow:
  assumes "0 \<le> t"
  shows "ll_cell64 L n s1 PInf k (Fin t) = NInf \<or> ll_cell64 L n s1 PInf k (Fin t) = NaN"
proof -
  have d: "fdiv PInf (Fin t) = PInf"
    using assms by simp
  show ?thesis
    unfolding ll_cell64_def d
    by (intro fsub_from_low fsub_PInf)
qed

lemma nanmax_low:
  assumes "\<forall>v\<in>set (concat a). v = NInf \<or> v = NaN"
  shows "nanmax a = NInf \<or> nanmax a = NaN"
proof -
  have all: "\<forall>v\<in>set (filter (\<lambda>v. v \<noteq> NaN) (concat a)). v = NInf"
    using assms by auto
  have fold_low: "fold (\<lambda>y m. if fless m y then y else m) vs NInf = NInf"
    if "\<forall>v\<in>set vs. v = NInf" for vs
    using that by (induction vs) simp_all
  show ?thesis
  proof (cases "filter (\<lambda>v. v \<noteq> NaN) (concat a)")
    case Nil
    then show ?thesis by (simp add: nanmax_def)
  next
    case (Cons v vs)
    then have "v = NInf" and "\<forall>u\<in>set vs. u = NInf"
      using all by simp_all
    then show ?thesis
      using Cons fold_low [of vs] by (simp add: nanmax_def)
  qed
qed

lemma nanmax_all_NaN:
  assumes "\<forall>v\<in>set (concat a). v = NaN"
  shows "nanmax a = NaN"
proof -
  have "filter (\<lambda>v. v \<noteq> NaN) (concat a) = []"
    using assms by (simp add: filter_empty_conv)
  then show ?thesis by (simp add: nanmax_def)
qed

lemma nanmax_replicate_NaN: "nanmax (replicate m (replicate n NaN)) = NaN"
proof (rule nanmax_all_NaN)
  show "\<forall>v\<in>set (concat (replicate m (replicate n NaN))). v = NaN"
    by (induction m) auto
qed

lemma map_replicate_const:
  assumes "\<forall>v\<in>set xs. f v = c"
  shows "map f xs = replicate (length xs) c"
  using assms by (induction xs) simp_all

text \<open>
  The values of \<open>T\<close> for a reference point in the range are those of exact arithmetic,
  so positive.
\<close>

lemma contour_T64_positive:
  assumes "0 < t0" and "4 * t0 < f64_bound" and "v \<in> set (contour_T64 t0)"
  shows "\<exists>t. v = Fin t \<and> 0 \<le> t"
proof -
  from assms(3) obtain t where t: "t \<in> set (contour_T t0)" and v: "v = Fin t"
    unfolding contour_T64_exact [OF assms(1,2)] by auto
  have "min (max (1 / 1000000) (t0 * 0.25)) (t0 * 4) \<le> t"
    using linspace_between [of 180 t "max (1 / 1000000) (t0 * 0.25)" "t0 * 4"] t
    by (simp add: contour_T_def Let_def)
  then have "0 \<le> t"
    using assms(1) by (auto simp: min_def max_def split: if_splits)
  then show ?thesis using v by blast
qed

text \<open>
  When the sum of the sample overflows, every cell of \<open>ll\<close> is the negative infinity or
  NaN, and every cell of \<open>z\<close> is NaN.
\<close>

lemma contour_z_sum_overflow:
  assumes "0 < t0" and "4 * t0 < f64_bound" and "fsum (map Fin x) = PInf"
  shows "contour_z L x k0 t0 = replicate 180 (replicate 180 NaN)"
proof -
  define n where "n = Fin (real (length x))"
  define s1 where "s1 = fsum (map (\<lambda>xi. fln (Fin xi)) x)"
  define ll where "ll = contour_ll64 L x k0 t0"
  have rows: "ll = map (\<lambda>t. map (\<lambda>k. ll_cell64 L n s1 PInf k t) (contour_K64 k0)) (contour_T64 t0)"
    unfolding ll_def contour_ll64_rows assms(3) n_def s1_def by (rule refl)
  have low: "c = NInf \<or> c = NaN" if "c \<in> set (concat ll)" for c
  proof -
    from that obtain t k where t: "t \<in> set (contour_T64 t0)" and c: "c = ll_cell64 L n s1 PInf k t"
      unfolding rows by auto
    from contour_T64_positive [OF assms(1,2) t] obtain r where "t = Fin r" and "0 \<le> r"
      by blast
    then show ?thesis
      using ll_cell64_sum_overflow [of r L n s1 k] by (simp only: c)
  qed
  then have mx: "nanmax ll = NInf \<or> nanmax ll = NaN"
    by (intro nanmax_low) blast
  have row_len: "length row = 180" if "row \<in> set ll" for row
    using that unfolding rows by (auto simp: length_contour_K64)
  have cells: "map (\<lambda>v. fsub v (nanmax ll)) row = replicate 180 NaN" if "row \<in> set ll" for row
  proof -
    have "\<forall>v\<in>set row. fsub v (nanmax ll) = NaN"
    proof
      fix v
      assume "v \<in> set row"
      then have "v \<in> set (concat ll)" using that by auto
      then show "fsub v (nanmax ll) = NaN"
        using low mx by (intro fsub_low_low) blast+
    qed
    then have "map (\<lambda>v. fsub v (nanmax ll)) row = replicate (length row) NaN"
      by (rule map_replicate_const)
    then show ?thesis
      by (simp only: row_len [OF that])
  qed
  have len: "length ll = 180"
    unfolding rows by (simp add: length_contour_T64)
  have "map (map (\<lambda>v. fsub v (nanmax ll))) ll = replicate (length ll) (replicate 180 NaN)"
  proof (rule map_replicate_const, rule ballI)
    fix row
    assume "row \<in> set ll"
    then show "map (\<lambda>v. fsub v (nanmax ll)) row = replicate 180 NaN"
      by (rule cells)
  qed
  then show ?thesis
    by (simp only: contour_z_def Let_def len ll_def [symmetric])
qed

lemma sample_sum_overflows: "fsum (map Fin [10 ^ 308, 9 * 10 ^ 307]) = PInf"
  by (simp add: fsum_def f64_def f64_bound_def)

text \<open>
  C4 on the sample \<open>[1e308, 9e307]\<close> with the reference point \<open>k0 = 1\<close>, \<open>theta0 = 1\<close>,
  for any library: the sum of the sample overflows, so every cell of \<open>z\<close> is NaN; \<open>z\<close>
  has no cell equal to 0 and its \<open>nanmax\<close> is NaN.
\<close>

theorem contour_z_all_nan_on_overflow:
  "contour_z L [10 ^ 308, 9 * 10 ^ 307] 1 1 = replicate 180 (replicate 180 NaN)
   \<and> nanmax (contour_z L [10 ^ 308, 9 * 10 ^ 307] 1 1) = NaN
   \<and> nanmax (contour_z L [10 ^ 308, 9 * 10 ^ 307] 1 1) \<noteq> Fin 0"
proof -
  have range: "(0::real) < 1" "4 * (1::real) < f64_bound"
    by (simp_all add: f64_bound_def)
  have z: "contour_z L [10 ^ 308, 9 * 10 ^ 307] 1 1 = replicate 180 (replicate 180 NaN)"
    using range sample_sum_overflows by (rule contour_z_sum_overflow)
  have mz: "nanmax (contour_z L [10 ^ 308, 9 * 10 ^ 307] 1 1) = NaN"
    unfolding z by (rule nanmax_replicate_NaN)
  have ne: "nanmax (contour_z L [10 ^ 308, 9 * 10 ^ 307] 1 1) \<noteq> Fin 0"
    unfolding mz by (rule fval.distinct)
  from z mz ne show ?thesis
    by (intro conjI)
qed

text \<open>
  Where the largest cell of \<open>ll\<close> that is not NaN is finite, the peak of \<open>z\<close> is 0.
\<close>

lemma fless_facts:
  "fless a b \<Longrightarrow> \<not> fless b a"
  "a \<noteq> NaN \<Longrightarrow> b \<noteq> NaN \<Longrightarrow> c \<noteq> NaN \<Longrightarrow> \<not> fless a b \<Longrightarrow> \<not> fless b c \<Longrightarrow> \<not> fless a c"
  "a \<noteq> NaN \<Longrightarrow> b \<noteq> NaN \<Longrightarrow> \<not> fless a b \<Longrightarrow> \<not> fless b a \<Longrightarrow> a = b"
  by (cases a; cases b; cases c; simp)+

lemma fless_irrefl: "\<not> fless a a"
  by (cases a) simp_all

lemma fold_max_greatest:
  assumes "v \<noteq> NaN" and "\<forall>u\<in>set vs. u \<noteq> NaN"
  shows "fold (\<lambda>y m. if fless m y then y else m) vs v \<in> set (v # vs)
       \<and> fold (\<lambda>y m. if fless m y then y else m) vs v \<noteq> NaN
       \<and> (\<forall>u\<in>set (v # vs). \<not> fless (fold (\<lambda>y m. if fless m y then y else m) vs v) u)"
  using assms
proof (induction vs arbitrary: v)
  case Nil
  then show ?case by (cases v) simp_all
next
  case (Cons y vs)
  let ?f = "\<lambda>y m. if fless m y then y else m"
  let ?v = "if fless v y then y else v"
  let ?r = "fold ?f vs ?v"
  have y: "y \<noteq> NaN" and vs: "\<forall>u\<in>set vs. u \<noteq> NaN"
    using Cons.prems(2) by simp_all
  have v': "?v \<noteq> NaN" using Cons.prems(1) y by simp
  note ih = Cons.IH [OF v' vs]
  have r: "?r \<noteq> NaN" using ih by blast
  have top: "\<not> fless ?r ?v" using ih by simp
  have ge: "\<not> fless ?v v" "\<not> fless ?v y"
    using fless_facts(1) [of v y] fless_irrefl [of v] fless_irrefl [of y]
    by (auto split: if_splits)
  have "\<not> fless ?r v"
    using fless_facts(2) [OF r v' Cons.prems(1) top ge(1)] .
  moreover have "\<not> fless ?r y"
    using fless_facts(2) [OF r v' y top ge(2)] .
  moreover have "?r \<in> set (v # y # vs)"
    using ih by (auto split: if_splits)
  ultimately show ?case
    using ih r by simp
qed

lemma nanmax_greatest:
  assumes "nanmax a = Fin m"
  shows "Fin m \<in> set (concat a) \<and> (\<forall>v\<in>set (concat a). v = NaN \<or> \<not> fless (Fin m) v)"
proof (cases "filter (\<lambda>v. v \<noteq> NaN) (concat a)")
  case Nil
  then show ?thesis using assms by (simp add: nanmax_def)
next
  case (Cons v vs)
  have set_eq: "set (v # vs) = {u \<in> set (concat a). u \<noteq> NaN}"
    using Cons by (metis set_filter)
  then have nn: "v \<noteq> NaN" "\<forall>u\<in>set vs. u \<noteq> NaN"
    by auto
  have m: "fold (\<lambda>y m. if fless m y then y else m) vs v = Fin m"
    using assms Cons by (simp add: nanmax_def)
  note g = fold_max_greatest [OF nn, unfolded m]
  show ?thesis
    using g unfolding set_eq by blast
qed

lemma nanmax_is:
  assumes "c \<in> set (concat a)" and "c \<noteq> NaN"
    and "\<forall>v\<in>set (concat a). v = NaN \<or> \<not> fless c v"
  shows "nanmax a = c"
proof (cases "filter (\<lambda>v. v \<noteq> NaN) (concat a)")
  case Nil
  then have "\<forall>v\<in>set (concat a). \<not> v \<noteq> NaN"
    by (simp only: filter_empty_conv)
  with assms(1,2) show ?thesis by blast
next
  case (Cons v vs)
  have set_eq: "set (v # vs) = {u \<in> set (concat a). u \<noteq> NaN}"
    using Cons by (metis set_filter)
  then have nn: "v \<noteq> NaN" "\<forall>u\<in>set vs. u \<noteq> NaN"
    by auto
  let ?r = "fold (\<lambda>y m. if fless m y then y else m) vs v"
  note g = fold_max_greatest [OF nn]
  have r_in: "?r \<in> set (concat a)" and r_nn: "?r \<noteq> NaN"
    using g unfolding set_eq by blast+
  have "\<not> fless ?r c"
    using g assms(1,2) unfolding set_eq by blast
  moreover have "\<not> fless c ?r"
    using assms(3) r_in r_nn by blast
  ultimately have "?r = c"
    using fless_facts(3) [OF r_nn assms(2)] by blast
  then show ?thesis
    using Cons by (simp add: nanmax_def)
qed

lemma fsub_peak:
  assumes "v = NaN \<or> \<not> fless (Fin m) v"
  shows "fsub v (Fin m) = NaN \<or> \<not> fless (Fin 0) (fsub v (Fin m))"
  using assms f64_bound_positive by (cases v) (auto simp: fsub_def f64_def)

lemma contour_z_peak_zero_if_finite:
  assumes "nanmax (contour_ll64 L x k0 t0) = Fin m"
  shows "nanmax (contour_z L x k0 t0) = Fin 0"
proof -
  define ll where "ll = contour_ll64 L x k0 t0"
  have z: "concat (contour_z L x k0 t0) = map (\<lambda>v. fsub v (Fin m)) (concat ll)"
    using assms by (simp add: contour_z_def Let_def map_concat ll_def)
  note g = nanmax_greatest [OF assms [folded ll_def]]
  have "fsub (Fin m) (Fin m) = Fin 0"
    by (simp add: fsub_def f64_zero)
  then have peak: "Fin 0 \<in> set (concat (contour_z L x k0 t0))"
    using g unfolding z by force
  have below: "\<forall>v\<in>set (concat (contour_z L x k0 t0)). v = NaN \<or> \<not> fless (Fin 0) v"
    using g fsub_peak unfolding z by auto
  show ?thesis
    using peak _ below by (rule nanmax_is) simp
qed

text \<open>
  C6 at the reference points \<open>k0 = 1e-4\<close> and \<open>theta0 = 1e-7\<close>: the grid of \<open>k\<close> starts at
  the clamp \<open>1e-3\<close> and ends at \<open>4e-4\<close>, the grid of \<open>theta\<close> starts at \<open>1e-6\<close> and ends at
  \<open>4e-7\<close>; the last values are below the clamps, in exact arithmetic and with the range
  of float64 alike.
\<close>

theorem contour_grid_below_clamp:
  "contour_K64 (1 / 10000) ! 0 = Fin (1 / 1000)
   \<and> contour_K64 (1 / 10000) ! 179 = Fin (4 / 10000)
   \<and> fless (contour_K64 (1 / 10000) ! 179) (Fin (1 / 1000))
   \<and> contour_T64 (1 / 10000000) ! 0 = Fin (1 / 1000000)
   \<and> contour_T64 (1 / 10000000) ! 179 = Fin (4 / 10000000)
   \<and> fless (contour_T64 (1 / 10000000) ! 179) (Fin (1 / 1000000))
   \<and> contour_K (1 / 10000) ! 179 = 4 / 10000 \<and> contour_K (1 / 10000) ! 179 < 1 / 1000
   \<and> contour_T (1 / 10000000) ! 179 = 4 / 10000000
   \<and> contour_T (1 / 10000000) ! 179 < 1 / 1000000"
proof -
  have r: "(0::real) < 1 / 10000" "4 * (1 / 10000 :: real) < f64_bound"
    "(0::real) < 1 / 10000000" "4 * (1 / 10000000 :: real) < f64_bound"
    by (simp_all add: f64_bound_def)
  have K: "contour_K64 (1 / 10000) = map Fin (contour_K (1 / 10000))"
    using r(1,2) by (rule contour_K64_exact)
  have T: "contour_T64 (1 / 10000000) = map Fin (contour_T (1 / 10000000))"
    using r(3,4) by (rule contour_T64_exact)
  have k: "contour_K (1 / 10000) ! 0 = 1 / 1000" "contour_K (1 / 10000) ! 179 = 4 / 10000"
    by (simp_all add: contour_K_def Let_def nth_linspace)
  have t: "contour_T (1 / 10000000) ! 0 = 1 / 1000000"
    "contour_T (1 / 10000000) ! 179 = 4 / 10000000"
    by (simp_all add: contour_T_def Let_def nth_linspace)
  show ?thesis
    unfolding K T by (simp add: length_contour_K length_contour_T k t)
qed

text \<open>
  For a reference point whose fourfold overflows, the upper end of the grid is the
  infinity and its first value is NaN.
\<close>

lemma contour_K64_overflow:
  "contour_K64 (10 ^ 308) ! 0 = NaN \<and> contour_K64 (10 ^ 308) ! 179 = PInf"
proof -
  have hi: "fmul (Fin (10 ^ 308)) (Fin 4) = PInf"
    by (simp add: f64_def f64_bound_def)
  have lo: "fmul (Fin (10 ^ 308)) (Fin 0.25) = Fin (10 ^ 308 * 0.25)"
    by (simp add: f64_def f64_bound_def)
  have m: "pymax (Fin (1 / 1000)) (Fin (10 ^ 308 * 0.25)) = Fin (10 ^ 308 * 0.25)"
    by (simp add: pymax_def)
  have "contour_K64 (10 ^ 308) = linspace64 (Fin (10 ^ 308 * 0.25)) PInf 180"
    by (simp only: contour_K64_def Let_def hi lo m)
  then show ?thesis
    by (simp add: linspace64_def Let_def fsub_def signed_inf_def nth_append)
qed

text \<open>
  Where no intermediate result leaves the range, the array \<open>ll\<close> with the range of
  float64 is the array \<open>ll\<close> of exact arithmetic.
\<close>

lemma fsum_exact_from:
  assumes "\<forall>i\<le>length xs. \<bar>a + sum_list (take i xs)\<bar> < f64_bound"
  shows "fold (\<lambda>v acc. fadd acc v) (map Fin xs) (Fin a) = Fin (a + sum_list xs)"
  using assms
proof (induction xs arbitrary: a)
  case Nil
  then show ?case by simp
next
  case (Cons x xs)
  have "\<bar>a + sum_list (take (Suc 0) (x # xs))\<bar> < f64_bound"
    using Cons.prems by (metis Suc_leI length_Cons zero_less_Suc)
  then have first: "f64 (a + x) = Fin (a + x)"
    by (simp add: f64_exact)
  have rest: "\<forall>i\<le>length xs. \<bar>(a + x) + sum_list (take i xs)\<bar> < f64_bound"
  proof (intro allI impI)
    fix i
    assume "i \<le> length xs"
    then have "\<bar>a + sum_list (take (Suc i) (x # xs))\<bar> < f64_bound"
      using Cons.prems by (metis Suc_le_mono length_Cons)
    then show "\<bar>(a + x) + sum_list (take i xs)\<bar> < f64_bound"
      by (simp add: add.assoc)
  qed
  show ?case
    using Cons.IH [OF rest] by (simp add: first add.assoc)
qed

lemma fsum_exact:
  assumes "\<forall>i\<le>length xs. \<bar>sum_list (take i xs)\<bar> < f64_bound"
  shows "fsum (map Fin xs) = Fin (sum_list xs)"
  using fsum_exact_from [of xs 0] assms by (simp add: fsum_def)

lemma ll_cell64_exact:
  assumes "0 < t" and "cell_in_range L n s1 s2 k t"
  shows "ll_cell64 L (Fin n) (Fin s1) (Fin s2) (Fin k) (Fin t) =
           Fin ((k - 1) * s1 - s2 / t - n * k * ln t - n * gammaln L k)"
  using assms
  by (simp add: ll_cell64_def fsub_def gammaln64_def f64_exact cell_in_range_def)

lemma contour_ll64_exact:
  assumes "0 < k0" and "4 * k0 < f64_bound" and "0 < t0" and "4 * t0 < f64_bound"
    and "\<forall>xi\<in>set x. 0 < xi"
    and "\<forall>i\<le>length x. \<bar>sum_list (take i (map ln x))\<bar> < f64_bound"
    and "\<forall>i\<le>length x. \<bar>sum_list (take i x)\<bar> < f64_bound"
    and "\<forall>t\<in>set (contour_T t0). \<forall>k\<in>set (contour_K k0).
           cell_in_range L (real (length x)) (sum_list (map ln x)) (sum_list x) k t"
  shows "contour_ll64 L x k0 t0 = map (map Fin) (contour_ll L x k0 t0)"
proof -
  have logs: "map (\<lambda>xi. fln (Fin xi)) x = map Fin (map ln x)"
    using assms(5) by (induction x) simp_all
  have s1: "fsum (map (\<lambda>xi. fln (Fin xi)) x) = Fin (sum_list (map ln x))"
    unfolding logs using assms(6) by (intro fsum_exact) simp
  have s2: "fsum (map Fin x) = Fin (sum_list x)"
    using assms(7) by (rule fsum_exact)
  have tpos: "0 < t" if "t \<in> set (contour_T t0)" for t
  proof -
    have "min (max (1 / 1000000) (t0 * 0.25)) (t0 * 4) \<le> t"
      using linspace_between [of 180 t "max (1 / 1000000) (t0 * 0.25)" "t0 * 4"] that
      by (simp add: contour_T_def Let_def)
    then show ?thesis
      using assms(3) by (auto simp: min_def max_def split: if_splits)
  qed
  have cell: "ll_cell64 L (Fin (real (length x))) (Fin (sum_list (map ln x))) (Fin (sum_list x))
        (Fin k) (Fin t) = Fin (loglike_gamma_loc0 L x k t)"
    if "t \<in> set (contour_T t0)" and "k \<in> set (contour_K k0)" for k t
    using ll_cell64_exact [OF tpos [OF that(1)]] assms(8) that
    by (simp add: loglike_gamma_loc0_def Let_def)
  show ?thesis
    unfolding contour_ll64_rows contour_ll_rows s1 s2
      contour_K64_exact [OF assms(1,2)] contour_T64_exact [OF assms(3,4)]
    by (simp add: cell comp_def)
qed

section \<open>Properties of the estimator and of the renderer\<close>

lemma length_positive_finite:
  "length (positive_finite x0) = length (filter (\<lambda>v. isfinite v \<and> gt0 v) x0)"
  by (simp add: positive_finite_def)

lemma positive_finite_positive: "r \<in> set (positive_finite x0) \<Longrightarrow> 0 < r"
proof -
  assume "r \<in> set (positive_finite x0)"
  then obtain v where v: "isfinite v" "gt0 v" "r = fval_real v"
    by (auto simp: positive_finite_def)
  show "0 < r" using v by (cases v) simp_all
qed

lemma positive_finite_Fin: "positive_finite (map Fin xs) = filter (\<lambda>r. 0 < r) xs"
  by (induction xs) (simp_all add: positive_finite_def)

text \<open>
  What \<open>fit_gamma_loc0\<close> returns beside the two numbers of the library's fit: the count
  of the finite positive values of its input, and their arithmetic mean.
\<close>

lemma fit_gamma_loc0_count_mean:
  assumes "\<exists>v\<in>set x0. isfinite v \<and> gt0 v"
    and "gamma_fit L (positive_finite x0) = Inr (k, loc, theta)"
  shows "fit_gamma_loc0 L x0 =
           Inr (k, theta, length (filter (\<lambda>v. isfinite v \<and> gt0 v) x0),
                sum_list (positive_finite x0) / real (length (positive_finite x0)))"
proof -
  have "filter (\<lambda>v. isfinite v \<and> gt0 v) x0 \<noteq> []"
    using assms(1) by (simp add: filter_empty_conv)
  then have "positive_finite x0 \<noteq> []"
    by (simp add: positive_finite_def)
  then show ?thesis
    using assms(2) by (simp add: fit_gamma_loc0_def Let_def length_positive_finite)
qed

lemma fit_gamma_loc0_library_error:
  assumes "positive_finite x0 \<noteq> []" and "gamma_fit L (positive_finite x0) = Inl e"
  shows "fit_gamma_loc0 L x0 = Inl e"
  using assms by (simp add: fit_gamma_loc0_def Let_def)

text \<open>
  C3.  When the selected column has no finite positive value, \<open>fit_gamma_loc0\<close> and
  \<open>_load_values\<close> raise \<open>SystemExit\<close>, and the run of either script ends with that
  error in the world it started in: no file written, nothing printed.
\<close>

theorem empty_sample_is_fatal_before_output:
  assumes "read_csv (mle_tsv a) = Inr df" and "mle_select_col df (mle_col a) = Inr c"
    and "positive_finite (to_numeric df c) = []"
    and "read_csv (plot_tsv b) = Inr df'" and "plot_select_col df' (plot_col b) = Inr c'"
    and "positive_finite (to_numeric df' c') = []"
  shows "fit_gamma_loc0 L (to_numeric df c) = Inl (SystemExit ''No positive finite values to fit.'')
       \<and> mle_main L read_csv a w = (Inl (SystemExit ''No positive finite values to fit.''), w)
       \<and> load_values read_csv (plot_tsv b) (plot_col b) =
           Inl (SystemExit ''No positive finite values to plot.'')
       \<and> plot_main L read_csv b w = (Inl (SystemExit ''No positive finite values to plot.''), w)"
proof -
  have fit: "fit_gamma_loc0 L (to_numeric df c) =
      Inl (SystemExit ''No positive finite values to fit.'')"
    using assms(3) by (simp add: fit_gamma_loc0_def)
  have load: "load_values read_csv (plot_tsv b) (plot_col b) =
      Inl (SystemExit ''No positive finite values to plot.'')"
    using assms(4-6) by (simp add: load_values_def)
  have "mle_main L read_csv a w = (Inl (SystemExit ''No positive finite values to fit.''), w)"
    using assms(1,2) fit by (simp add: mle_main_def)
  moreover have "plot_main L read_csv b w =
      (Inl (SystemExit ''No positive finite values to plot.''), w)"
    using load by (simp add: plot_main_def)
  ultimately show ?thesis using fit load by simp
qed

theorem empty_sample_is_fatal_before_output_witness:
  "mle_main lib0 (\<lambda>p. Inr table_nonpositive)
      \<lparr>mle_tsv = ''d.tsv'', mle_out = ''fit.txt'', mle_col = ''lifespan_months''\<rparr> world0 =
     (Inl (SystemExit ''No positive finite values to fit.''), world0)
   \<and> plot_main lib0 (\<lambda>p. Inr table_nonpositive)
      \<lparr>plot_tsv = ''d.tsv'', plot_col = ''lifespan_months'', plot_k = 2, plot_theta = 3,
       plot_title = ''t'', plot_outprefix = ''out/a''\<rparr> world0 =
     (Inl (SystemExit ''No positive finite values to plot.''), world0)"
proof -
  have sel: "mle_select_col table_nonpositive ''lifespan_months'' = Inr ''lifespan_months''"
    "plot_select_col table_nonpositive ''lifespan_months'' = Inr ''lifespan_months''"
    by (simp_all add: mle_select_col_def plot_select_col_def columns_def table_nonpositive_def)
  have emp: "positive_finite (to_numeric table_nonpositive ''lifespan_months'') = []"
    by (simp add: positive_finite_def to_numeric_def table_nonpositive_def)
  show ?thesis
    using empty_sample_is_fatal_before_output
      [of "\<lambda>p. Inr table_nonpositive"
          "\<lparr>mle_tsv = ''d.tsv'', mle_out = ''fit.txt'', mle_col = ''lifespan_months''\<rparr>"
          table_nonpositive "''lifespan_months''"
          "\<lparr>plot_tsv = ''d.tsv'', plot_col = ''lifespan_months'', plot_k = 2, plot_theta = 3,
            plot_title = ''t'', plot_outprefix = ''out/a''\<rparr>"
          table_nonpositive "''lifespan_months''" lib0 world0]
      sel emp
    by simp
qed

text \<open>A run of either script that ends with an error has written and printed nothing.\<close>

lemma mle_main_error_no_output: "fst (mle_main L read_csv a w) = Inl e \<Longrightarrow> snd (mle_main L read_csv a w) = w"
  by (auto simp: mle_main_def Let_def split: sum.splits prod.splits)

lemma plot_main_error_no_output: "fst (plot_main L read_csv b w) = Inl e \<Longrightarrow> snd (plot_main L read_csv b w) = w"
  by (auto simp: plot_main_def Let_def split: sum.splits)

text \<open>
  The order in which the estimator looks for its column: the name asked for, then
  \<open>lifespan_months\<close>, then the first column of a number dtype; with none of them, an
  error.  The renderer has the first and the last step, and an error of its own.
\<close>

lemma mle_select_col_order:
  "mle_select_col df c =
     (if c \<in> set (columns df) then Inr c
      else if ''lifespan_months'' \<in> set (columns df) then Inr ''lifespan_months''
      else (case find (\<lambda>k. is_number_dtype (cdtype k)) df of
              Some k \<Rightarrow> Inr (cname k) | None \<Rightarrow> Inl IndexError))"
proof -
  have "(case columns (filter P df) of [] \<Rightarrow> Inl IndexError | c0 # cs \<Rightarrow> Inr c0) =
        (case find P df of Some k \<Rightarrow> Inr (cname k) | None \<Rightarrow> Inl IndexError)" for P
    by (induction df) (simp_all add: columns_def)
  then show ?thesis by (simp add: mle_select_col_def)
qed

lemma plot_select_col_order:
  "plot_select_col df c =
     (if c \<in> set (columns df) then Inr c
      else (case find (\<lambda>k. is_numeric_dtype (cdtype k)) df of
              Some k \<Rightarrow> Inr (cname k)
            | None \<Rightarrow> Inl (SystemExit ''No numeric column found and --col not present.'')))"
proof -
  have "(case columns (filter P df) of [] \<Rightarrow> Inl e | c0 # cs \<Rightarrow> Inr c0) =
        (case find P df of Some k \<Rightarrow> Inr (cname k) | None \<Rightarrow> Inl e)"
    for P and e :: exn
    by (induction df) (simp_all add: columns_def)
  then show ?thesis by (simp add: plot_select_col_def Let_def)
qed

text \<open>
  C9 on a table with the columns \<open>review_no\<close> (integers) and \<open>lifespan_months\<close>
  (floats), asked for the absent column \<open>months\<close>: the estimator reads
  \<open>lifespan_months\<close>, the renderer reads \<open>review_no\<close>.
\<close>

theorem renderer_skips_default_column:
  "mle_select_col table_two_numeric ''months'' = Inr ''lifespan_months''
   \<and> plot_select_col table_two_numeric ''months'' = Inr ''review_no''
   \<and> load_values (\<lambda>p. Inr table_two_numeric) ''d.tsv'' ''months'' = Inr [1, 2]"
  by (simp add: mle_select_col_def plot_select_col_def load_values_def columns_def
        table_two_numeric_def to_numeric_def positive_finite_def)

section \<open>Properties of the generator's text\<close>

lemma hf_result_error_is_Exception: "hf_result repr data = Inl x \<Longrightarrow> is_Exception x"
proof -
  have c: "json_contains d key = Inl y \<Longrightarrow> is_Exception y" for d key y
    by (cases d) auto
  have i: "json_item d key = Inl y \<Longrightarrow> is_Exception y" for d key y
    by (cases d) (auto split: option.splits)
  assume "hf_result repr data = Inl x"
  then show ?thesis
    by (auto simp: hf_result_def dest: c i
          split: json.splits list.splits sum.splits bool.splits option.splits)
qed

lemma hf_result_unusable:
  assumes "\<not> usable_payload data"
  shows "hf_result repr data = Inr [] \<or> (\<exists>x. hf_result repr data = Inl x)"
  using assms
  by (cases data rule: usable_payload.cases) (auto simp: hf_result_def split: bool.splits)

lemma hf_generate_no_token:
  "\<not> token_set e \<Longrightarrow> hf_generate e post repr prompt k n = (Inr [], n)"
  by (simp add: hf_generate_def)

lemma hf_generate_raises:
  assumes "token_set e" and "post n (HF_URL e) (the (HF_TOKEN e)) prompt k = Raises x"
  shows "hf_generate e post repr prompt k n =
           (if is_Exception x then (Inr [], Suc n) else (Inl x, Suc n))"
  using assms by (simp add: hf_generate_def)

lemma hf_generate_unusable:
  assumes "token_set e" and "post n (HF_URL e) (the (HF_TOKEN e)) prompt k = Loads data"
    and "\<not> usable_payload data"
  shows "hf_generate e post repr prompt k n = (Inr [], Suc n)"
  using assms(1,2) hf_result_unusable [OF assms(3), of repr]
  by (auto simp: hf_generate_def dest: hf_result_error_is_Exception)

lemma hf_generate_fails:
  assumes "service_fails e post n prompt"
  shows "fst (hf_generate e post repr prompt 80 n) = Inr []"
proof (cases "token_set e")
  case False
  then show ?thesis by (simp add: hf_generate_no_token)
next
  case True
  show ?thesis
  proof (cases "post n (HF_URL e) (the (HF_TOKEN e)) prompt 80")
    case (Raises x)
    then show ?thesis
      using assms True by (simp add: service_fails_def hf_generate_def)
  next
    case (Loads data)
    then show ?thesis
      using assms True hf_generate_unusable [of e post n prompt 80 data repr]
      by (simp add: service_fails_def)
  qed
qed

text \<open>No exception that derives from \<open>Exception\<close> leaves \<open>_hf_generate\<close>.\<close>

lemma hf_generate_catches:
  assumes "\<forall>x. post n (HF_URL e) (the (HF_TOKEN e)) prompt k = Raises x \<longrightarrow> is_Exception x"
  shows "\<exists>s. fst (hf_generate e post repr prompt k n) = Inr s"
  using assms
  by (auto simp: hf_generate_def dest: hf_result_error_is_Exception
        split: outcome.splits sum.splits)

lemma parse_title_body_empty: "parse_title_body [] = ([], [])"
  by (simp add: parse_title_body_def splitlines_def)

lemma failure_bodies_formatted:
  "map (\<lambda>tpl. format_m tpl m) FAILURE_BODIES =
     [''Worked fine at first but stopped working after about '' @ fmt_fixed 1 m @ '' months.'',
      ''Battery died roughly '' @ fmt_fixed 1 m @ '' months in, now it barely powers on.'',
      ''After around '' @ fmt_fixed 1 m @ '' months, it gave out and will not hold charge.'',
      ''About '' @ fmt_fixed 1 m @ '' months after buying, it just quit.'']"
  by (simp add: FAILURE_BODIES_def)

lemma failure_bodies_nonempty: "tpl \<in> set FAILURE_BODIES \<Longrightarrow> format_m tpl m \<noteq> []"
  by (auto simp: FAILURE_BODIES_def)

lemma gen_failure_text_fallback:
  assumes "fst (hf_generate e post (json_repr P) (failure_prompt brand months) 80 n) = Inr []"
  shows "\<exists>st. gen_failure_text e post P brand months (r, n) =
           Inr ((fst (rng_choice_str P r FAILURE_TITLES),
                 format_m (fst (rng_choice_str P (snd (rng_choice_str P r FAILURE_TITLES))
                                  FAILURE_BODIES)) months), st)"
  using assms
  by (cases "hf_generate e post (json_repr P) (failure_prompt brand months) 80 n")
    (auto simp: gen_failure_text_def bindE_def parse_title_body_empty split_beta Let_def)

lemma gen_other_text_fallback:
  assumes "fst (hf_generate e post (json_repr P) (other_prompt brand) 80 n) = Inr []"
  shows "\<exists>st. gen_other_text e post P brand (r, n) =
           Inr ((fst (rng_choice_str P r OTHER_TITLES),
                 fst (rng_choice_str P (snd (rng_choice_str P r OTHER_TITLES)) OTHER_BODIES)), st)"
  using assms
  by (cases "hf_generate e post (json_repr P) (other_prompt brand) 80 n")
    (auto simp: gen_other_text_def bindE_def parse_title_body_empty split_beta Let_def)

lemma pool_facts:
  "FAILURE_TITLES \<noteq> []" "FAILURE_BODIES \<noteq> []" "OTHER_TITLES \<noteq> []" "OTHER_BODIES \<noteq> []"
  "[] \<notin> set FAILURE_TITLES" "[] \<notin> set OTHER_TITLES" "[] \<notin> set OTHER_BODIES"
  by (simp_all add: FAILURE_TITLES_def FAILURE_BODIES_def OTHER_TITLES_def OTHER_BODIES_def)

text \<open>
  Whatever the service answers, short of an exception outside \<open>Exception\<close>, both text
  functions return a title and a body, neither empty, when \<open>rng.choice\<close> returns an
  element of its argument.
\<close>

lemma gen_failure_text_total:
  assumes choice: "\<forall>r xs. xs \<noteq> [] \<longrightarrow> fst (rng_choice_str P r xs) \<in> set xs"
    and exc: "\<forall>x. post n (HF_URL e) (the (HF_TOKEN e)) (failure_prompt brand months) 80 = Raises x
                \<longrightarrow> is_Exception x"
  shows "\<exists>t b st. gen_failure_text e post P brand months (r, n) = Inr ((t, b), st)
           \<and> t \<noteq> [] \<and> b \<noteq> []"
proof -
  obtain s where s: "fst (hf_generate e post (json_repr P) (failure_prompt brand months) 80 n) = Inr s"
    using hf_generate_catches [where repr = "json_repr P" and k = 80 and n = n and e = e
        and post = post and prompt = "failure_prompt brand months"] exc by blast
  have t: "fst (rng_choice_str P r' FAILURE_TITLES) \<noteq> []" for r'
    using choice pool_facts by metis
  have b: "format_m (fst (rng_choice_str P r' FAILURE_BODIES)) months \<noteq> []" for r'
    using choice pool_facts(2) failure_bodies_nonempty by metis
  show ?thesis
    using s t b
    by (cases "hf_generate e post (json_repr P) (failure_prompt brand months) 80 n")
      (auto simp: gen_failure_text_def bindE_def split_beta Let_def)
qed

lemma gen_other_text_total:
  assumes choice: "\<forall>r xs. xs \<noteq> [] \<longrightarrow> fst (rng_choice_str P r xs) \<in> set xs"
    and exc: "\<forall>x. post n (HF_URL e) (the (HF_TOKEN e)) (other_prompt brand) 80 = Raises x
                \<longrightarrow> is_Exception x"
  shows "\<exists>t b st. gen_other_text e post P brand (r, n) = Inr ((t, b), st) \<and> t \<noteq> [] \<and> b \<noteq> []"
proof -
  obtain s where s: "fst (hf_generate e post (json_repr P) (other_prompt brand) 80 n) = Inr s"
    using hf_generate_catches [where repr = "json_repr P" and k = 80 and n = n and e = e
        and post = post and prompt = "other_prompt brand"] exc by blast
  have t: "fst (rng_choice_str P r' OTHER_TITLES) \<noteq> []" for r'
    using choice pool_facts by metis
  have b: "fst (rng_choice_str P r' OTHER_BODIES) \<noteq> []" for r'
    using choice pool_facts by metis
  show ?thesis
    using s t b
    by (cases "hf_generate e post (json_repr P) (other_prompt brand) 80 n")
      (auto simp: gen_other_text_def bindE_def split_beta Let_def)
qed

text \<open>
  C7.  When the request for a text fails (no credential, an exception that derives from
  \<open>Exception\<close> such as a timeout or a network error, or a decoded payload of an
  unexpected shape), \<open>_hf_generate\<close> returns the empty string, and \<open>gen_failure_text\<close>
  and \<open>gen_other_text\<close> return a title and a body drawn from their template pools, the
  failure body with the elapsed months filled in; neither is empty and nothing is
  raised.  The pools are read with \<open>rng.choice\<close>, which returns an element of its
  argument.
\<close>

theorem text_generation_falls_back:
  assumes "\<forall>r xs. xs \<noteq> [] \<longrightarrow> fst (rng_choice_str P r xs) \<in> set xs"
    and "service_fails e post n (failure_prompt brand months)"
    and "service_fails e post n (other_prompt brand)"
  shows "fst (hf_generate e post (json_repr P) (failure_prompt brand months) 80 n) = Inr []
       \<and> fst (hf_generate e post (json_repr P) (other_prompt brand) 80 n) = Inr []
       \<and> (\<exists>t b st. gen_failure_text e post P brand months (r, n) = Inr ((t, b), st)
             \<and> t \<in> set FAILURE_TITLES
             \<and> b \<in> set (map (\<lambda>tpl. format_m tpl months) FAILURE_BODIES)
             \<and> t \<noteq> [] \<and> b \<noteq> [])
       \<and> (\<exists>t b st. gen_other_text e post P brand (r, n) = Inr ((t, b), st)
             \<and> t \<in> set OTHER_TITLES \<and> b \<in> set OTHER_BODIES \<and> t \<noteq> [] \<and> b \<noteq> [])"
proof -
  note f = hf_generate_fails [OF assms(2), of "json_repr P"]
  note g = hf_generate_fails [OF assms(3), of "json_repr P"]
  have pick: "fst (rng_choice_str P r' xs) \<in> set xs" if "xs \<noteq> []" for r' xs
    using assms(1) that by blast
  obtain st where ft: "gen_failure_text e post P brand months (r, n) =
      Inr ((fst (rng_choice_str P r FAILURE_TITLES),
            format_m (fst (rng_choice_str P (snd (rng_choice_str P r FAILURE_TITLES))
                             FAILURE_BODIES)) months), st)"
    using gen_failure_text_fallback [OF f] by blast
  obtain st' where ot: "gen_other_text e post P brand (r, n) =
      Inr ((fst (rng_choice_str P r OTHER_TITLES),
            fst (rng_choice_str P (snd (rng_choice_str P r OTHER_TITLES)) OTHER_BODIES)), st')"
    using gen_other_text_fallback [OF g] by blast
  have t1: "fst (rng_choice_str P r FAILURE_TITLES) \<in> set FAILURE_TITLES"
    and t2: "fst (rng_choice_str P r OTHER_TITLES) \<in> set OTHER_TITLES"
    by (rule pick, rule pool_facts)+
  have b1: "fst (rng_choice_str P (snd (rng_choice_str P r FAILURE_TITLES)) FAILURE_BODIES)
              \<in> set FAILURE_BODIES"
    and b2: "fst (rng_choice_str P (snd (rng_choice_str P r OTHER_TITLES)) OTHER_BODIES)
              \<in> set OTHER_BODIES"
    by (rule pick, rule pool_facts)+
  have n1: "fst (rng_choice_str P r FAILURE_TITLES) \<noteq> []"
    using t1 pool_facts(5) by metis
  have n2: "fst (rng_choice_str P r OTHER_TITLES) \<noteq> []"
    using t2 pool_facts(6) by metis
  have n3: "fst (rng_choice_str P (snd (rng_choice_str P r OTHER_TITLES)) OTHER_BODIES) \<noteq> []"
    using b2 pool_facts(7) by metis
  have failure: "\<exists>t b st. gen_failure_text e post P brand months (r, n) = Inr ((t, b), st)
             \<and> t \<in> set FAILURE_TITLES
             \<and> b \<in> set (map (\<lambda>tpl. format_m tpl months) FAILURE_BODIES)
             \<and> t \<noteq> [] \<and> b \<noteq> []"
    using ft t1 b1 n1 failure_bodies_nonempty [OF b1, of months] by auto
  have other: "\<exists>t b st. gen_other_text e post P brand (r, n) = Inr ((t, b), st)
             \<and> t \<in> set OTHER_TITLES \<and> b \<in> set OTHER_BODIES \<and> t \<noteq> [] \<and> b \<noteq> []"
    using ot t2 b2 n2 n3 by auto
  show ?thesis using f g failure other by blast
qed

theorem text_generation_falls_back_witness:
  "fst (hf_generate env_token service_timeout (json_repr pylib0) (failure_prompt ''Alpha'' 8) 80 0)
     = Inr []
   \<and> gen_failure_text env_token service_timeout pylib0 ''Alpha'' 8 (0, 0) =
       Inr ((''Battery died early'',
             ''Worked fine at first but stopped working after about 8.0 months.''), (2, 1))
   \<and> gen_other_text env_token service_error_payload pylib0 ''Beta'' (5, 3) =
       Inr ((''Arrived fast'', ''Shipping was quick and packaging was fine.''), (7, 4))"
proof -
  have choice: "\<forall>r xs. xs \<noteq> [] \<longrightarrow> fst (rng_choice_str pylib0 r xs) \<in> set xs"
    by (simp add: pylib0_def)
  have tok: "token_set env_token"
    by (simp add: token_set_def env_token_def)
  have f1: "service_fails env_token service_timeout n p" for n p
    using tok by (simp add: service_fails_def service_timeout_def)
  have f2: "service_fails env_token service_error_payload n p" for n p
    using tok by (simp add: service_fails_def service_error_payload_def)
  note a = text_generation_falls_back [where P = pylib0 and e = env_token
      and post = service_timeout and n = 0 and brand = "''Alpha''" and months = 8 and r = 0,
      OF choice f1 f1]
  note b = text_generation_falls_back [where P = pylib0 and e = env_token
      and post = service_error_payload and n = 3 and brand = "''Beta''" and months = 0
      and r = 5, OF choice f2 f2]
  have m: "fmt_fixed (Suc 0) 8 = ''8.0''"
    by (simp add: fmt_fixed_def round_half_even_def dec.simps Let_def)
  have v1: "gen_failure_text env_token service_timeout pylib0 ''Alpha'' 8 (0, 0) =
       Inr ((''Battery died early'',
             ''Worked fine at first but stopped working after about 8.0 months.''), (2, 1))"
    using tok
    by (simp add: gen_failure_text_def hf_generate_def service_timeout_def bindE_def
          parse_title_body_empty pylib0_def FAILURE_TITLES_def FAILURE_BODIES_def m)
  have v2: "gen_other_text env_token service_error_payload pylib0 ''Beta'' (5, 3) =
       Inr ((''Arrived fast'', ''Shipping was quick and packaging was fine.''), (7, 4))"
    using tok
    by (simp add: gen_other_text_def hf_generate_def service_error_payload_def hf_result_def
          bindE_def parse_title_body_empty pylib0_def OTHER_TITLES_def OTHER_BODIES_def)
  show ?thesis using a b v1 v2 by simp
qed

section \<open>The generator on a small concrete run\<close>

lemma replicate_numeral: "replicate (numeral k) x = x # replicate (pred_numeral k) x"
  by (simp add: numeral_eq_Suc)

lemma pylib0_simps:
  "rng_seed pylib0 s = nat s"
  "rng_randrange pylib0 r n = (0, Suc r)"
  "rng_choice_str pylib0 r xs = (hd xs, Suc r)"
  "rng_choice_chr pylib0 r cs = (hd cs, Suc r)"
  "rng_choices pylib0 r pop ws = (hd pop, Suc r)"
  "rng_random pylib0 r = (1 / 2, Suc r)"
  "rng_uniform pylib0 r lo hi = (lo, Suc r)"
  "rng_shuffle pylib0 r rows = (rev rows, Suc r)"
  "np_gamma pylib0 s k theta n = replicate n (k * theta)"
  "strftime_ymd pylib0 d = dec (nat d)"
  by (simp_all add: pylib0_def)

lemma ex_date: "rand_date_ymd pylib0 ''2023-01-01'' ''2024-12-31'' r = Inr (738521 * us_per_day, Suc r)"
  by (simp add: rand_date_ymd_def pylib0_def bindE_def timedelta_days_def datetime_add_def
        round_half_even_def us_per_day_def Let_def)

lemma ex_post8: "add_months_as_days (738521 * us_per_day) 8 = Inr (738521 * us_per_day + 21040128000000)"
  by (simp add: add_months_as_days_def months_to_days_def bindE_def timedelta_days_def datetime_add_def
        round_half_even_def us_per_day_def Let_def)

lemma ex_post02: "add_months_as_days (738521 * us_per_day) (1 / 5) = Inr (738521 * us_per_day + 526003200000)"
  by (simp add: add_months_as_days_def months_to_days_def bindE_def timedelta_days_def datetime_add_def
        round_half_even_def us_per_day_def Let_def)

lemma ex_fmt: "fmt_fixed 2 8 = ''8.00''" "fmt_fixed (Suc 0) 8 = ''8.0''" "pad3 1 = ''001''" "pad3 (Suc 0) = ''001''"
   "str_int 1 = ''1''" "str_int 3 = ''3''"
  by (simp_all add: fmt_fixed_def round_half_even_def dec.simps Let_def pad3_def str_int_def replicate_numeral)

lemma ex_order: "make_order_id pylib0 r = (''O000000000'', r + 9)"
  by (simp add: make_order_id_def pylib0_simps eval_nat_numeral)

lemma ex_strftime: "strftime pylib0 (738521 * us_per_day) = ''738521''"
  "strftime pylib0 (738521 * us_per_day + 21040128000000) = ''738764''"
  "strftime pylib0 (738521 * us_per_day + 526003200000) = ''738527''"
  by (simp_all add: strftime_def pylib0_simps us_per_day_def dec.simps)

lemma ex_failure_row:
  "failure_row env_no_token service_timeout pylib0 ''rA'' ''Alpha'' ''2023-01-01'' ''2024-12-31'' (Suc 0, 8) (r, n) =
     Inr ([''rA001'', ''Alpha'', ''738521'', ''738764'', ''Battery died early'',
           ''Worked fine at first but stopped working after about 8.0 months.'',
           ''1'', ''true'', ''O000000000'', ''8.00''], (r + 14, n))"
  by (simp add: failure_row_def ex_date bindE_def ex_post8 ex_fmt ex_order ex_strftime
      gen_failure_text_def env_no_token_def token_set_def parse_title_body_empty
      pick_stars_failure_def pick_verified_def pylib0_simps FAILURE_TITLES_def FAILURE_BODIES_def)

lemma ex_other_row:
  "other_row env_no_token service_timeout pylib0 ''rAX'' ''Alpha'' ''2023-01-01'' ''2024-12-31'' 0 (r, n) =
     Inr ([''rAX001'', ''Alpha'', ''738521'', ''738527'', ''Arrived fast'',
           ''Shipping was quick and packaging was fine.'', ''3'', ''true'', ''O000000000'', []],
          (r + 15, n))"
  by (simp add: other_row_def ex_date bindE_def ex_post02 ex_fmt ex_order ex_strftime
      gen_other_text_def env_no_token_def token_set_def parse_title_body_empty
      pick_stars_other_def pick_verified_def pylib0_simps OTHER_TITLES_def OTHER_BODIES_def)

lemma ex_generate:
  "generate_rows env_no_token service_timeout pylib0 args_small =
     Inr (([[''rA001'', ''Alpha'', ''738521'', ''738764'', ''Battery died early'',
           ''Worked fine at first but stopped working after about 8.0 months.'',
           ''1'', ''true'', ''O000000000'', ''8.00'']],
          [[''rAX001'', ''Alpha'', ''738521'', ''738527'', ''Arrived fast'',
           ''Shipping was quick and packaging was fine.'', ''3'', ''true'', ''O000000000'', []]]),
          (1263, 0))"
proof -
  have s: "sample_gamma_lifespans pylib0 2 4 1 1245 = Inr [8]"
    "sample_gamma_lifespans pylib0 3 3 0 1256 = Inr []"
    by (simp_all add: sample_gamma_lifespans_def pylib0_simps float_eps_def)
  show ?thesis
    by (simp add: generate_rows_def args_small_def s bindE_def
         ex_failure_row ex_other_row pylib0_simps)
qed
section \<open>Properties of the generated dataset\<close>

lemma gen_failure_text_without_token:
  assumes "\<not> token_set e1" and "\<not> token_set e2"
  shows "gen_failure_text e1 post1 P = gen_failure_text e2 post2 P"
  using assms by (intro ext) (simp add: gen_failure_text_def)

lemma gen_other_text_without_token:
  assumes "\<not> token_set e1" and "\<not> token_set e2"
  shows "gen_other_text e1 post1 P = gen_other_text e2 post2 P"
  using assms by (intro ext) (simp add: gen_other_text_def)

lemma failure_row_without_token:
  assumes "\<not> token_set e1" and "\<not> token_set e2"
  shows "failure_row e1 post1 P = failure_row e2 post2 P"
  by (intro ext)
    (simp add: failure_row_def gen_failure_text_without_token [OF assms, of post1 P post2])

lemma other_row_without_token:
  assumes "\<not> token_set e1" and "\<not> token_set e2"
  shows "other_row e1 post1 P = other_row e2 post2 P"
  by (intro ext)
    (simp add: other_row_def gen_other_text_without_token [OF assms, of post1 P post2])

lemma generate_rows_without_token:
  assumes "\<not> token_set e1" and "\<not> token_set e2"
  shows "generate_rows e1 post1 P a = generate_rows e2 post2 P a"
  unfolding generate_rows_def
    failure_row_without_token [OF assms, of post1 P post2]
    other_row_without_token [OF assms, of post1 P post2]
  by (rule refl)

lemma dataset_rows_without_token:
  assumes "\<not> token_set e1" and "\<not> token_set e2"
  shows "dataset_rows e1 post1 P a = dataset_rows e2 post2 P a"
  unfolding dataset_rows_def generate_rows_without_token [OF assms, of post1 P a post2]
  by (rule refl)

text \<open>Without a credential no request is made: the count of requests stays where it was.\<close>

lemma for_each_preserves:
  assumes "for_each body xs st = Inr (rows, st')"
    and "\<And>x s row s'. body x s = Inr (row, s') \<Longrightarrow> I s \<Longrightarrow> I s'"
    and "I st"
  shows "I st'"
  using assms(1,3)
proof (induction xs arbitrary: st rows)
  case Nil
  then show ?case by simp
next
  case (Cons x xs)
  from Cons.prems(1) obtain row s1 rest where
    b: "body x st = Inr (row, s1)" and r: "for_each body xs s1 = Inr (rest, st')"
    by (auto split: sum.splits prod.splits)
  have "I s1" using assms(2) [OF b] Cons.prems(2) .
  then show ?case using Cons.IH [OF r] by simp
qed

text \<open>What a successful step of each loop, and a successful run of the loops, went through.\<close>

lemma failure_row_Inr:
  assumes "failure_row e post P tag brand ps pe (i, m) (r, n) = Inr (row, st')"
  shows "\<exists>dp r1 dpost title body r2.
           rand_date_ymd P ps pe r = Inr (dp, r1)
         \<and> add_months_as_days dp m = Inr dpost
         \<and> gen_failure_text e post P brand m (r1, n) = Inr ((title, body), (r2, snd st'))
         \<and> row = [tag @ pad3 i, brand, strftime P dp, strftime P dpost, title, body,
                  str_int (fst (pick_stars_failure P r2)),
                  fst (pick_verified P (snd (pick_stars_failure P r2))),
                  fst (make_order_id P (snd (pick_verified P (snd (pick_stars_failure P r2))))),
                  fmt_fixed 2 m]"
  using assms
  by (auto simp: failure_row_def bindE_def split_beta Let_def split: sum.splits)

lemma other_row_Inr:
  assumes "other_row e post P tag brand ps pe i (r, n) = Inr (row, st')"
  shows "\<exists>dp r1 dpost title body r3.
           rand_date_ymd P ps pe r = Inr (dp, r1)
         \<and> add_months_as_days dp (fst (rng_uniform P r1 0.2 18.0)) = Inr dpost
         \<and> gen_other_text e post P brand (snd (rng_uniform P r1 0.2 18.0), n) =
             Inr ((title, body), (r3, snd st'))
         \<and> row = [tag @ pad3 (i + 1), brand, strftime P dp, strftime P dpost, title, body,
                  str_int (fst (pick_stars_other P r3)),
                  fst (pick_verified P (snd (pick_stars_other P r3))),
                  fst (make_order_id P (snd (pick_verified P (snd (pick_stars_other P r3))))),
                  []]"
  using assms
  by (auto simp: other_row_def bindE_def split_beta Let_def split: sum.splits)

lemma generate_rows_Inr:
  assumes "generate_rows e post P a = Inr ((failures, others), st)"
  shows "\<exists>la ra s1 lb rb s2 rax s3 rbx.
           0 \<le> seed a \<and> seed a < 2 ^ 32
         \<and> sample_gamma_lifespans P (k_alpha a) (th_alpha a) (n_fail_alpha a) (seed a + 11) = Inr la
         \<and> for_each (failure_row e post P ''rA'' ''Alpha'' (purchase_start a) (purchase_end a))
              (enumerate 1 la) (rng_seed P (seed a), 0) = Inr (ra, s1)
         \<and> sample_gamma_lifespans P (k_beta a) (th_beta a) (n_fail_beta a) (seed a + 22) = Inr lb
         \<and> for_each (failure_row e post P ''rB'' ''Beta'' (purchase_start a) (purchase_end a))
              (enumerate 1 lb) s1 = Inr (rb, s2)
         \<and> for_each (other_row e post P ''rAX'' ''Alpha'' (purchase_start a) (purchase_end a))
              [0..<nat (n_other_alpha a)] s2 = Inr (rax, s3)
         \<and> for_each (other_row e post P ''rBX'' ''Beta'' (purchase_start a) (purchase_end a))
              [0..<nat (n_other_beta a)] s3 = Inr (rbx, st)
         \<and> failures = ra @ rb \<and> others = rax @ rbx"
  using assms
  by (auto simp: generate_rows_def bindE_def Let_def split: if_splits sum.splits)

lemma gen_failure_text_requests:
  assumes "\<not> token_set e" and "gen_failure_text e post P brand m st = Inr (tb, st')"
  shows "snd st' = snd st"
  using assms by (cases st) (auto simp: gen_failure_text_def bindE_def split_beta Let_def)

lemma gen_other_text_requests:
  assumes "\<not> token_set e" and "gen_other_text e post P brand st = Inr (tb, st')"
  shows "snd st' = snd st"
  using assms by (cases st) (auto simp: gen_other_text_def bindE_def split_beta Let_def)

lemma failure_row_requests:
  assumes "\<not> token_set e" and "failure_row e post P tag brand ps pe item st = Inr (row, st')"
  shows "snd st' = snd st"
proof -
  obtain i m r n where item: "item = (i, m)" and st: "st = (r, n)"
    by (cases item, cases st) blast
  from failure_row_Inr [OF assms(2) [unfolded item st]] obtain r1 tb r2 where
    "gen_failure_text e post P brand m (r1, n) = Inr (tb, (r2, snd st'))"
    by blast
  from gen_failure_text_requests [OF assms(1) this] show ?thesis
    by (simp add: st)
qed

lemma other_row_requests:
  assumes "\<not> token_set e" and "other_row e post P tag brand ps pe i st = Inr (row, st')"
  shows "snd st' = snd st"
proof -
  obtain r n where st: "st = (r, n)"
    by (cases st) blast
  from other_row_Inr [OF assms(2) [unfolded st]] obtain r1 tb r3 where
    "gen_other_text e post P brand (r1, n) = Inr (tb, (r3, snd st'))"
    by blast
  from gen_other_text_requests [OF assms(1) this] show ?thesis
    by (simp add: st)
qed

lemma generate_rows_requests:
  assumes "\<not> token_set e" and "generate_rows e post P a = Inr (parts, (r, n))"
  shows "n = 0"
proof -
  have f: "snd s' = 0"
    if "for_each (failure_row e post P tag brand ps pe) xs s = Inr (rows, s')" and "snd s = 0"
    for tag brand ps pe xs s rows s'
    using that(1) _ that(2)
  proof (rule for_each_preserves [where I = "\<lambda>s. snd s = 0"])
    fix x s row s'
    assume "failure_row e post P tag brand ps pe x s = Inr (row, s')" and "snd s = 0"
    then show "snd s' = 0"
      using failure_row_requests [OF assms(1), of post P tag brand ps pe x s row s']
      by simp
  qed
  have g: "snd s' = 0"
    if "for_each (other_row e post P tag brand ps pe) xs s = Inr (rows, s')" and "snd s = 0"
    for tag brand ps pe xs s rows s'
    using that(1) _ that(2)
  proof (rule for_each_preserves [where I = "\<lambda>s. snd s = 0"])
    fix x s row s'
    assume "other_row e post P tag brand ps pe x s = Inr (row, s')" and "snd s = 0"
    then show "snd s' = 0"
      using other_row_requests [OF assms(1), of post P tag brand ps pe x s row s']
      by simp
  qed
  obtain failures others where parts: "parts = (failures, others)"
    by (cases parts) blast
  from generate_rows_Inr [OF assms(2) [unfolded parts]] obtain la ra s1 lb rb s2 rax s3 rbx where
    1: "for_each (failure_row e post P ''rA'' ''Alpha'' (purchase_start a) (purchase_end a))
          (enumerate 1 la) (rng_seed P (seed a), 0) = Inr (ra, s1)" and
    2: "for_each (failure_row e post P ''rB'' ''Beta'' (purchase_start a) (purchase_end a))
          (enumerate 1 lb) s1 = Inr (rb, s2)" and
    3: "for_each (other_row e post P ''rAX'' ''Alpha'' (purchase_start a) (purchase_end a))
          [0..<nat (n_other_alpha a)] s2 = Inr (rax, s3)" and
    4: "for_each (other_row e post P ''rBX'' ''Beta'' (purchase_start a) (purchase_end a))
          [0..<nat (n_other_beta a)] s3 = Inr (rbx, (r, n))"
    by blast
  have "snd s1 = 0" using f [OF 1] by simp
  then have "snd s2 = 0" using f [OF 2] by simp
  then have "snd s3 = 0" using g [OF 3] by simp
  then show ?thesis using g [OF 4] by simp
qed

text \<open>
  C5.  Two runs of \<open>make_dataset\<close> with the same arguments and no credential, whatever the
  text service would answer, whatever model name the environment holds and whatever
  files exist before, end alike: both raise the same exception and write nothing, or
  both write the same text to the output path; the rows are the same, and no request
  is made.  The random generators are those built from the seed.
\<close>

theorem dataset_reproducible:
  assumes "\<not> token_set e1" and "\<not> token_set e2"
  shows "fst (make_dataset e1 post1 P a w1) = fst (make_dataset e2 post2 P a w2)
       \<and> dataset_rows e1 post1 P a = dataset_rows e2 post2 P a
       \<and> (fst (make_dataset e1 post1 P a w1) = Inr () \<longrightarrow>
            (\<exists>content. files (snd (make_dataset e1 post1 P a w1)) (out_tsv a) = Some (Tsv content)
                  \<and> files (snd (make_dataset e2 post2 P a w2)) (out_tsv a) = Some (Tsv content)))
       \<and> (\<forall>x. fst (make_dataset e1 post1 P a w1) = Inl x \<longrightarrow>
              snd (make_dataset e1 post1 P a w1) = w1 \<and> snd (make_dataset e2 post2 P a w2) = w2)
       \<and> (\<forall>parts r n. generate_rows e1 post1 P a = Inr (parts, (r, n)) \<longrightarrow> n = 0)"
proof -
  note rows = dataset_rows_without_token [OF assms, of post1 P a post2]
  have "n = 0" if "generate_rows e1 post1 P a = Inr (parts, (r, n))" for parts r n
    using assms(1) that by (rule generate_rows_requests)
  then have req: "\<forall>parts r n. generate_rows e1 post1 P a = Inr (parts, (r, n)) \<longrightarrow> n = 0"
    by (intro allI impI)
  show ?thesis
  proof (cases "dataset_rows e2 post2 P a")
    case (Inl x)
    have m1: "make_dataset e1 post1 P a w1 = (Inl x, w1)"
      by (simp add: make_dataset_def rows Inl)
    have m2: "make_dataset e2 post2 P a w2 = (Inl x, w2)"
      by (simp add: make_dataset_def Inl)
    show ?thesis
      unfolding m1 m2 using rows req by simp
  next
    case (Inr rs)
    define content where "content = csv_text P (tsv_header # rs)"
    define line where
      "line = ''[synth] wrote '' @ out_tsv a @ '' ('' @ dec (length rs) @ '' rows)''"
    have m1: "make_dataset e1 post1 P a w1 =
        (Inr (), print_line line (write_file (out_tsv a) (Tsv content) w1))"
      by (simp add: make_dataset_def rows Inr Let_def content_def line_def)
    have m2: "make_dataset e2 post2 P a w2 =
        (Inr (), print_line line (write_file (out_tsv a) (Tsv content) w2))"
      by (simp add: make_dataset_def Inr Let_def content_def line_def)
    have f: "files (print_line line (write_file (out_tsv a) (Tsv content) w)) (out_tsv a) =
        Some (Tsv content)" for w
      by (simp add: print_line_def write_file_def)
    show ?thesis
      unfolding m1 m2 using rows req f by simp
  qed
qed

theorem dataset_reproducible_witness:
  "fst (make_dataset env_no_token service_timeout pylib0 args_small world0) = Inr ()
   \<and> fst (make_dataset env_empty_token service_text pylib0 args_small
            (write_file ''raw/reviews.tsv'' (Tsv ''old'') world0)) = Inr ()
   \<and> files (snd (make_dataset env_no_token service_timeout pylib0 args_small world0))
        ''raw/reviews.tsv'' =
      files (snd (make_dataset env_empty_token service_text pylib0 args_small
                    (write_file ''raw/reviews.tsv'' (Tsv ''old'') world0))) ''raw/reviews.tsv''"
proof -
  have t: "\<not> token_set env_no_token" "\<not> token_set env_empty_token"
    by (simp_all add: token_set_def env_no_token_def env_empty_token_def)
  note h = dataset_reproducible [OF t, of service_timeout pylib0 args_small world0 service_text
      "write_file ''raw/reviews.tsv'' (Tsv ''old'') world0"]
  have ok: "fst (make_dataset env_no_token service_timeout pylib0 args_small world0) = Inr ()"
    by (simp add: make_dataset_def dataset_rows_def ex_generate bindE_def Let_def)
  have out: "out_tsv args_small = ''raw/reviews.tsv''"
    by (simp add: args_small_def)
  from h have e: "fst (make_dataset env_no_token service_timeout pylib0 args_small world0) =
      fst (make_dataset env_empty_token service_text pylib0 args_small
             (write_file ''raw/reviews.tsv'' (Tsv ''old'') world0))"
    by (rule conjunct1)
  from h ok obtain c where
    c1: "files (snd (make_dataset env_no_token service_timeout pylib0 args_small world0))
           (out_tsv args_small) = Some (Tsv c)" and
    c2: "files (snd (make_dataset env_empty_token service_text pylib0 args_small
           (write_file ''raw/reviews.tsv'' (Tsv ''old'') world0))) (out_tsv args_small) =
           Some (Tsv c)"
    by blast
  show ?thesis
    using ok e c1 c2 unfolding out by simp
qed

section \<open>Properties of the elapsed-months token\<close>

lemma float_eps_positive: "0 < float_eps"
  by (simp add: float_eps_def)

lemma sample_gamma_lifespans_clamped:
  assumes "sample_gamma_lifespans P k theta n sd = Inr xs" and "x \<in> set xs"
  shows "float_eps \<le> x \<and> 0 < x"
proof -
  from assms obtain v where "x = max v float_eps"
    by (auto simp: sample_gamma_lifespans_def Let_def split: if_splits)
  then have "float_eps \<le> x" by simp
  then show ?thesis using float_eps_positive by simp
qed

lemma dec_nonempty: "dec n \<noteq> []"
  by (subst dec.simps) simp

lemma fmt_fixed_nonempty: "fmt_fixed p x \<noteq> []"
  by (simp add: fmt_fixed_def Let_def dec_nonempty)

lemma for_each_rows:
  assumes "for_each body xs st = Inr (rows, st')"
    and "\<And>x s row s'. x \<in> set xs \<Longrightarrow> body x s = Inr (row, s') \<Longrightarrow> Q x row"
  shows "list_all2 Q xs rows"
  using assms
proof (induction xs arbitrary: st rows)
  case Nil
  then show ?case by simp
next
  case (Cons x xs)
  from Cons.prems(1) obtain row s1 rest where
    b: "body x st = Inr (row, s1)" and r: "for_each body xs s1 = Inr (rest, st')"
    and rows: "rows = row # rest"
    by (auto split: sum.splits prod.splits)
  have "Q x row" using Cons.prems(2) [of x st row s1] b by simp
  moreover have "list_all2 Q xs rest"
    using Cons.IH [OF r] Cons.prems(2) by simp
  ultimately show ?case by (simp add: rows)
qed

lemma list_all2_map_eq:
  assumes "list_all2 (\<lambda>x y. g y = f x) xs ys"
  shows "map g ys = map f xs"
  using assms by (induction rule: list_all2_induct) simp_all

lemma failure_rows_tokens:
  assumes "for_each (failure_row e post P tag brand ps pe) (enumerate i ms) st = Inr (rows, st')"
  shows "map (\<lambda>row. row ! 9) rows = map (fmt_fixed 2) ms"
proof -
  have "list_all2 (\<lambda>item row. row ! 9 = fmt_fixed 2 (snd item)) (enumerate i ms) rows"
    using assms
  proof (rule for_each_rows)
    fix item s row s'
    assume "failure_row e post P tag brand ps pe item s = Inr (row, s')"
    then have "failure_row e post P tag brand ps pe (fst item, snd item) (fst s, snd s) =
        Inr (row, s')"
      by simp
    from failure_row_Inr [OF this] show "row ! 9 = fmt_fixed 2 (snd item)"
      by auto
  qed
  then have "map (\<lambda>row. row ! 9) rows = map (\<lambda>item. fmt_fixed 2 (snd item)) (enumerate i ms)"
    by (rule list_all2_map_eq)
  also have "\<dots> = map (fmt_fixed 2) (map snd (enumerate i ms))"
    by (simp only: map_map comp_def)
  also have "\<dots> = map (fmt_fixed 2) ms"
    by (simp only: map_snd_enumerate)
  finally show ?thesis .
qed

lemma other_rows_tokens:
  assumes "for_each (other_row e post P tag brand ps pe) xs st = Inr (rows, st')"
    and "row \<in> set rows"
  shows "row ! 9 = []"
proof -
  have "list_all2 (\<lambda>i row. row ! 9 = []) xs rows"
    using assms(1)
  proof (rule for_each_rows)
    fix i s row s'
    assume "other_row e post P tag brand ps pe i s = Inr (row, s')"
    then have "other_row e post P tag brand ps pe i (fst s, snd s) = Inr (row, s')"
      by simp
    from other_row_Inr [OF this] show "row ! 9 = []"
      by auto
  qed
  then have "map (\<lambda>row. row ! 9) rows = map (\<lambda>i. []) xs"
    by (rule list_all2_map_eq)
  then have "\<forall>t\<in>set (map (\<lambda>row. row ! 9) rows). t = []"
    by auto
  then show ?thesis using assms(2) by simp
qed

text \<open>
  C10.  The lifespans that \<open>sample_gamma_lifespans\<close> returns are at least the machine
  epsilon, so positive.  In a dataset that \<open>make_dataset\<close> has built, the rows are those
  of the loops over failures and those of the loops over the other reviews; the last
  field of the failure rows is, in order, the lifespans of the two brands printed with
  two decimals, never empty, and the last field of every other row is empty: a row has
  a non-empty token exactly when it is a failure row.  The shuffle is taken to return
  the rows it was given.
\<close>

theorem failure_rows_carry_token:
  assumes "\<forall>r xs. set (fst (rng_shuffle P r xs)) = set xs"
    and "dataset_rows e post P a = Inr rows"
  shows "\<exists>la lb failures others st.
           sample_gamma_lifespans P (k_alpha a) (th_alpha a) (n_fail_alpha a) (seed a + 11) = Inr la
         \<and> sample_gamma_lifespans P (k_beta a) (th_beta a) (n_fail_beta a) (seed a + 22) = Inr lb
         \<and> (\<forall>m\<in>set (la @ lb). float_eps \<le> m \<and> 0 < m)
         \<and> generate_rows e post P a = Inr ((failures, others), st)
         \<and> set rows = set failures \<union> set others
         \<and> map (\<lambda>row. row ! 9) failures = map (fmt_fixed 2) (la @ lb)
         \<and> (\<forall>row\<in>set rows. row ! 9 \<noteq> [] \<longleftrightarrow> row \<in> set failures)
         \<and> (\<forall>row\<in>set others. row ! 9 = [])"
proof -
  from assms(2) obtain failures others r n where
    g: "generate_rows e post P a = Inr ((failures, others), (r, n))" and
    rows: "rows = fst (rng_shuffle P r (failures @ others))"
    by (auto simp: dataset_rows_def bindE_def split: sum.splits)
  from generate_rows_Inr [OF g] obtain la ra s1 lb rb s2 rax s3 rbx where
    sa: "sample_gamma_lifespans P (k_alpha a) (th_alpha a) (n_fail_alpha a) (seed a + 11) = Inr la"
    and fa: "for_each (failure_row e post P ''rA'' ''Alpha'' (purchase_start a) (purchase_end a))
          (enumerate 1 la) (rng_seed P (seed a), 0) = Inr (ra, s1)"
    and sb: "sample_gamma_lifespans P (k_beta a) (th_beta a) (n_fail_beta a) (seed a + 22) = Inr lb"
    and fb: "for_each (failure_row e post P ''rB'' ''Beta'' (purchase_start a) (purchase_end a))
          (enumerate 1 lb) s1 = Inr (rb, s2)"
    and oa: "for_each (other_row e post P ''rAX'' ''Alpha'' (purchase_start a) (purchase_end a))
          [0..<nat (n_other_alpha a)] s2 = Inr (rax, s3)"
    and ob: "for_each (other_row e post P ''rBX'' ''Beta'' (purchase_start a) (purchase_end a))
          [0..<nat (n_other_beta a)] s3 = Inr (rbx, (r, n))"
    and parts: "failures = ra @ rb" "others = rax @ rbx"
    by blast
  have pos: "\<forall>m\<in>set (la @ lb). float_eps \<le> m \<and> 0 < m"
    using sample_gamma_lifespans_clamped [OF sa] sample_gamma_lifespans_clamped [OF sb] by auto
  have tok: "map (\<lambda>row. row ! 9) failures = map (fmt_fixed 2) (la @ lb)"
    using failure_rows_tokens [OF fa] failure_rows_tokens [OF fb] by (simp add: parts)
  have oth: "\<forall>row\<in>set others. row ! 9 = []"
    using other_rows_tokens [OF oa] other_rows_tokens [OF ob] by (auto simp: parts)
  have fne: "row ! 9 \<noteq> []" if "row \<in> set failures" for row
  proof -
    have "row ! 9 \<in> set (map (\<lambda>row. row ! 9) failures)"
      using that by simp
    then have "row ! 9 \<in> set (map (fmt_fixed 2) (la @ lb))"
      by (simp only: tok)
    then show ?thesis
      using fmt_fixed_nonempty by auto
  qed
  have set_rows: "set rows = set failures \<union> set others"
    using assms(1) by (simp add: rows)
  have iff: "\<forall>row\<in>set rows. row ! 9 \<noteq> [] \<longleftrightarrow> row \<in> set failures"
    using fne oth set_rows by auto
  show ?thesis
    using sa sb pos g set_rows tok iff oth by blast
qed

theorem failure_rows_carry_token_witness:
  "dataset_rows env_no_token service_timeout pylib0 args_small =
     Inr [[''rAX001'', ''Alpha'', ''738521'', ''738527'', ''Arrived fast'',
           ''Shipping was quick and packaging was fine.'', ''3'', ''true'', ''O000000000'', []],
          [''rA001'', ''Alpha'', ''738521'', ''738764'', ''Battery died early'',
           ''Worked fine at first but stopped working after about 8.0 months.'',
           ''1'', ''true'', ''O000000000'', ''8.00'']]
   \<and> sample_gamma_lifespans pylib0 2 4 1 1245 = Inr [8]
   \<and> fmt_fixed 2 8 = ''8.00''
   \<and> (\<exists>la lb failures others st.
         sample_gamma_lifespans pylib0 (k_alpha args_small) (th_alpha args_small)
           (n_fail_alpha args_small) (seed args_small + 11) = Inr la
       \<and> generate_rows env_no_token service_timeout pylib0 args_small =
           Inr ((failures, others), st)
       \<and> map (\<lambda>row. row ! 9) failures = map (fmt_fixed 2) (la @ lb))"
proof -
  have sh: "\<forall>r xs. set (fst (rng_shuffle pylib0 r xs)) = set xs"
    by (simp add: pylib0_simps)
  have rows: "dataset_rows env_no_token service_timeout pylib0 args_small =
     Inr [[''rAX001'', ''Alpha'', ''738521'', ''738527'', ''Arrived fast'',
           ''Shipping was quick and packaging was fine.'', ''3'', ''true'', ''O000000000'', []],
          [''rA001'', ''Alpha'', ''738521'', ''738764'', ''Battery died early'',
           ''Worked fine at first but stopped working after about 8.0 months.'',
           ''1'', ''true'', ''O000000000'', ''8.00'']]"
    by (simp add: dataset_rows_def ex_generate bindE_def pylib0_simps)
  have s: "sample_gamma_lifespans pylib0 2 4 1 1245 = Inr [8]"
    by (simp add: sample_gamma_lifespans_def pylib0_simps float_eps_def)
  from failure_rows_carry_token [OF sh rows] obtain la lb failures others st where
    "sample_gamma_lifespans pylib0 (k_alpha args_small) (th_alpha args_small)
       (n_fail_alpha args_small) (seed args_small + 11) = Inr la"
    "generate_rows env_no_token service_timeout pylib0 args_small = Inr ((failures, others), st)"
    "map (\<lambda>row. row ! 9) failures = map (fmt_fixed 2) (la @ lb)"
    by blast
  then have ex: "\<exists>la lb failures others st.
         sample_gamma_lifespans pylib0 (k_alpha args_small) (th_alpha args_small)
           (n_fail_alpha args_small) (seed args_small + 11) = Inr la
       \<and> generate_rows env_no_token service_timeout pylib0 args_small =
           Inr ((failures, others), st)
       \<and> map (\<lambda>row. row ! 9) failures = map (fmt_fixed 2) (la @ lb)"
    by blast
  show ?thesis
    using rows s ex_fmt(1) ex by (intro conjI)
qed

end
